theory Spec2Isabelle
  imports Complex_Main "HOL-Library.Sublist" "HOL-Library.Multiset"
begin

section \<open>JavaScript values, errors and the HTTP transport\<close>

text \<open>
  The services under \<open>src/services\<close> are asynchronous JavaScript modules. Each
  operation is embedded as a function from the world in which it is started to its settled
  result and the world in which it settles. The world holds the clock (\<open>Date.now()\<close>,
  in milliseconds), the outbound HTTP requests in the order they were sent, and the two
  module-level variables of \<open>blizzard.js\<close> (\<open>accessToken\<close>, \<open>tokenExpiry\<close>).
  A rejected promise is \<open>Inl\<close> of the thrown error, a fulfilled one is \<open>Inr\<close> of its
  value. Console output is not part of the model.

  A member of a JavaScript object is absent (\<open>Undefined\<close>), \<open>Null\<close>, or a value of
  the type the upstream API documents for it. JSON values of another type at a member are
  outside this model.
\<close>

datatype 'a js = Undefined | Null | Val 'a

datatype js_error = JsError (err_name: string) (err_message: string)

record request =
  req_method :: string
  req_url :: string
  req_headers :: "(string \<times> string) list"
  req_body :: string

text \<open>
  What \<open>response.json()\<close> yields: a rejection with a \<open>SyntaxError\<close> carrying the
  engine's message, the JSON value \<open>null\<close>, or a document.
\<close>

datatype 'b json_body = NotJson string | JsonNull | Doc 'b

record 'b response =
  status :: nat
  statusText :: string
  body_text :: string
  json :: "'b json_body"

text \<open>\<open>fetch\<close> either rejects (connectivity, CORS) or resolves with a response.\<close>

datatype 'b http_outcome = Rejects js_error | Resolves "'b response"

text \<open>
  The transport answers a request sent at a given clock reading with an outcome and
  the number of milliseconds that pass until the outcome is there.
\<close>

type_synonym 'b transport = "request \<Rightarrow> int \<Rightarrow> 'b http_outcome \<times> nat"

record world =
  now :: int
  sent :: "request list"
  accessToken :: "string js"
  tokenExpiry :: "int option"

text \<open>\<open>tokenExpiry\<close> is a JavaScript number; \<open>None\<close> stands for \<open>NaN\<close>.\<close>

definition ok :: "'b response \<Rightarrow> bool" where
  "ok r = (200 \<le> status r \<and> status r \<le> 299)"

definition fetch :: "'b transport \<Rightarrow> request \<Rightarrow> world \<Rightarrow> 'b http_outcome \<times> world" where
  "fetch net rq w =
     (let (out, elapsed) = net rq (now w)
      in (out, w\<lparr>now := now w + int elapsed, sent := sent w @ [rq]\<rparr>))"

definition get_request :: "string \<Rightarrow> (string \<times> string) list \<Rightarrow> request" where
  "get_request url hs = \<lparr>req_method = ''GET'', req_url = url, req_headers = hs, req_body = ''''\<rparr>"

subsection \<open>Truthiness, string conversion and numbers\<close>

definition truthy_str :: "string js \<Rightarrow> bool" where
  "truthy_str v = (case v of Val s \<Rightarrow> s \<noteq> [] | _ \<Rightarrow> False)"

definition truthy_num :: "'a::zero js \<Rightarrow> bool" where
  "truthy_num v = (case v of Val n \<Rightarrow> n \<noteq> 0 | _ \<Rightarrow> False)"

definition truthy_bool :: "bool js \<Rightarrow> bool" where
  "truthy_bool v = (case v of Val b \<Rightarrow> b | _ \<Rightarrow> False)"

text \<open>Objects and arrays are truthy, also when empty.\<close>

definition truthy_obj :: "'a js \<Rightarrow> bool" where
  "truthy_obj v = (case v of Val _ \<Rightarrow> True | _ \<Rightarrow> False)"

text \<open>\<open>a || b\<close> for strings, numbers, booleans and objects.\<close>

definition or_str :: "string js \<Rightarrow> string js \<Rightarrow> string js" where
  "or_str a b = (if truthy_str a then a else b)"

definition or_number :: "'a::zero js \<Rightarrow> 'a js \<Rightarrow> 'a js" where
  "or_number a b = (if truthy_num a then a else b)"

definition or_bool :: "bool js \<Rightarrow> bool js \<Rightarrow> bool js" where
  "or_bool a b = (if truthy_bool a then a else b)"

definition or_obj :: "'a js \<Rightarrow> 'a js \<Rightarrow> 'a js" where
  "or_obj a b = (if truthy_obj a then a else b)"

text \<open>\<open>xs || []\<close> for an array-valued member.\<close>

definition or_empty :: "'a list js \<Rightarrow> 'a list" where
  "or_empty v = (case v of Val xs \<Rightarrow> xs | _ \<Rightarrow> [])"

text \<open>\<open>x?.f\<close>: \<open>undefined\<close> when \<open>x\<close> is \<open>undefined\<close> or \<open>null\<close>.\<close>

definition opt_chain :: "'a js \<Rightarrow> ('a \<Rightarrow> 'b js) \<Rightarrow> 'b js" where
  "opt_chain x f = (case x of Val a \<Rightarrow> f a | _ \<Rightarrow> Undefined)"

text \<open>A configuration entry that is not set reads as \<open>undefined\<close>.\<close>

definition of_config :: "string option \<Rightarrow> string js" where
  "of_config c = (case c of None \<Rightarrow> Undefined | Some s \<Rightarrow> Val s)"

text \<open>The text a template literal inserts for a string-valued member.\<close>

definition to_string :: "string js \<Rightarrow> string" where
  "to_string v = (case v of Undefined \<Rightarrow> ''undefined'' | Null \<Rightarrow> ''null'' | Val s \<Rightarrow> s)"

text \<open>Decimal digits of a number, as a template literal prints an integer.\<close>

definition digit_char :: "nat \<Rightarrow> char" where
  "digit_char n = ''0123456789'' ! (n mod 10)"

fun show_nat :: "nat \<Rightarrow> string" where
  "show_nat n = (if n < 10 then [digit_char n] else show_nat (n div 10) @ [digit_char (n mod 10)])"

declare show_nat.simps [simp del]

definition show_int :: "int \<Rightarrow> string" where
  "show_int i = (if i < 0 then CHR ''-'' # show_nat (nat (- i)) else show_nat (nat i))"

text \<open>The text a template literal inserts for a number-valued member.\<close>

definition num_to_string :: "int js \<Rightarrow> string" where
  "num_to_string v = (case v of Undefined \<Rightarrow> ''undefined'' | Null \<Rightarrow> ''null'' | Val n \<Rightarrow> show_int n)"

text \<open>\<open>ToNumber\<close> on a number-valued member; \<open>None\<close> is \<open>NaN\<close>.\<close>

definition to_number :: "int js \<Rightarrow> int option" where
  "to_number v = (case v of Undefined \<Rightarrow> None | Null \<Rightarrow> Some 0 | Val n \<Rightarrow> Some n)"

text \<open>
  \<open>String.prototype.toLowerCase\<close> on the ASCII letters; other characters are left
  as they are.
\<close>

definition to_lower_char :: "char \<Rightarrow> char" where
  "to_lower_char c =
     (let n = (of_char c :: nat) in if 65 \<le> n \<and> n \<le> 90 then char_of (n + 32) else c)"

definition toLowerCase :: "string \<Rightarrow> string" where
  "toLowerCase s = map to_lower_char s"

text \<open>\<open>String.prototype.includes\<close>.\<close>

fun str_includes :: "string \<Rightarrow> string \<Rightarrow> bool" where
  "str_includes [] sub = (sub = [])"
| "str_includes (c # cs) sub = (prefix sub (c # cs) \<or> str_includes cs sub)"

section \<open>Blizzard: the token cache (\<open>blizzard.js\<close>)\<close>

text \<open>
  \<open>config.js\<close> is not among the sources; its entries are parameters. An entry the code
  tests for presence is optional.
\<close>

record wow_config =
  wow_clientId :: "string option"
  wow_clientSecret :: "string option"
  wow_region :: string
  wow_realm :: "string option"
  wow_characterName :: "string option"

record token_doc =
  access_token :: "string js"
  expires_in :: "int js"

text \<open>\<open>btoa\<close> is the platform's Base64 encoder and \<open>apis.blizzard\<close> the configured base URL.\<close>

record blizzard_env =
  wow :: wow_config
  apis_blizzard :: string
  btoa :: "string \<Rightarrow> string"

definition config_set :: "string option \<Rightarrow> bool" where
  "config_set c = truthy_str (of_config c)"

definition token_request :: "blizzard_env \<Rightarrow> request" where
  "token_request env =
     \<lparr>req_method = ''POST'',
      req_url = ''https://'' @ wow_region (wow env) @ ''.battle.net/oauth/token'',
      req_headers =
        [(''Authorization'', ''Basic '' @ btoa env
            (to_string (of_config (wow_clientId (wow env))) @ '':'' @
             to_string (of_config (wow_clientSecret (wow env))))),
         (''Content-Type'', ''application/x-www-form-urlencoded'')],
      req_body = ''grant_type=client_credentials''\<rparr>"

text \<open>\<open>accessToken && Date.now() < tokenExpiry\<close>\<close>

definition cached_token_valid :: "world \<Rightarrow> bool" where
  "cached_token_valid w =
     (truthy_str (accessToken w) \<and> (case tokenExpiry w of None \<Rightarrow> False | Some e \<Rightarrow> now w < e))"

text \<open>\<open>Date.now() + (data.expires_in - 300) * 1000\<close>\<close>

definition expiry_of :: "int \<Rightarrow> int js \<Rightarrow> int option" where
  "expiry_of t e = (case to_number e of None \<Rightarrow> None | Some n \<Rightarrow> Some (t + (n - 300) * 1000))"

definition getAccessToken :: "blizzard_env \<Rightarrow> token_doc transport \<Rightarrow> world \<Rightarrow> string js \<times> world" where
  "getAccessToken env net w =
     (if cached_token_valid w then (accessToken w, w)
      else if \<not> config_set (wow_clientId (wow env)) \<or> \<not> config_set (wow_clientSecret (wow env))
      then (Null, w)
      else (case fetch net (token_request env) w of
              (Rejects err, w') \<Rightarrow> (Null, w')
            | (Resolves r, w') \<Rightarrow>
                if \<not> ok r then (Null, w')
                else (case json r of
                        NotJson msg \<Rightarrow> (Null, w')
                      | JsonNull \<Rightarrow> (Null, w')
                      | Doc d \<Rightarrow>
                          (access_token d,
                           w'\<lparr>accessToken := access_token d,
                               tokenExpiry := expiry_of (now w') (expires_in d)\<rparr>))))"

section \<open>Blizzard: authenticated requests and the character resources\<close>

text \<open>
  The request \<open>blizzardFetch\<close> sends. \<open>new URL\<close> and \<open>searchParams\<close> are taken as
  plain concatenation (the base URL is well formed and nothing needs percent-encoding);
  every caller leaves \<open>params\<close> at its default \<open>{}\<close>.
\<close>

definition api_request :: "blizzard_env \<Rightarrow> string \<Rightarrow> string js \<Rightarrow> request" where
  "api_request env endpoint token =
     get_request
       (apis_blizzard env @ endpoint @ ''?namespace=profile-'' @ wow_region (wow env) @
        ''&locale=en_US'')
       [(''Authorization'', ''Bearer '' @ to_string token)]"

definition blizzardFetch ::
  "blizzard_env \<Rightarrow> token_doc transport \<Rightarrow> 'b transport \<Rightarrow> string \<Rightarrow> world \<Rightarrow> 'b js \<times> world" where
  "blizzardFetch env tnet net endpoint w =
     (case getAccessToken env tnet w of
        (token, w1) \<Rightarrow>
          if \<not> truthy_str token then (Null, w1)
          else (case fetch net (api_request env endpoint token) w1 of
                  (Rejects err, w2) \<Rightarrow> (Null, w2)
                | (Resolves r, w2) \<Rightarrow>
                    if \<not> ok r then (Null, w2)
                    else (case json r of
                            NotJson msg \<Rightarrow> (Null, w2)
                          | JsonNull \<Rightarrow> (Null, w2)
                          | Doc d \<Rightarrow> (Val d, w2))))"

text \<open>
  \<open>`/profile/wow/character/${wow.realm}/${wow.characterName.toLowerCase()}`\<close>: reading
  \<open>toLowerCase\<close> of an unset character name throws a \<open>TypeError\<close>.
\<close>

definition character_path :: "wow_config \<Rightarrow> js_error + string" where
  "character_path c =
     (case wow_characterName c of
        None \<Rightarrow> Inl (JsError ''TypeError'' ''Cannot read properties of undefined'')
      | Some n \<Rightarrow>
          Inr (''/profile/wow/character/'' @ to_string (of_config (wow_realm c)) @ ''/'' @
               toLowerCase n))"

record named =
  nm :: "string js"

record profile_doc =
  pd_name :: "string js"
  pd_realm :: "named js"
  pd_character_class :: "named js"
  pd_race :: "named js"
  pd_level :: "int js"
  pd_faction :: "named js"
  pd_equipped_item_level :: "int js"
  pd_average_item_level :: "int js"
  pd_guild :: "named js"
  pd_last_login_timestamp :: "int js"

record character_profile =
  cp_name :: "string js"
  cp_realm :: "string js"
  cp_class :: "string js"
  cp_race :: "string js"
  cp_level :: "int js"
  cp_faction :: "string js"
  cp_itemLevel :: "int js"
  cp_averageItemLevel :: "int js"
  cp_guild :: "string js"
  cp_lastLogin :: "int js"

definition getMockCharacterProfile :: "wow_config \<Rightarrow> int \<Rightarrow> character_profile" where
  "getMockCharacterProfile c t =
     \<lparr>cp_name = or_str (of_config (wow_characterName c)) (Val ''Hero''),
      cp_realm = or_str (of_config (wow_realm c)) (Val ''Area-52''),
      cp_class = Val ''Death Knight'',
      cp_race = Val ''Blood Elf'',
      cp_level = Val 80,
      cp_faction = Val ''Horde'',
      cp_itemLevel = Val 623,
      cp_averageItemLevel = Val 625,
      cp_guild = Val ''Sample Guild'',
      cp_lastLogin = Val t\<rparr>"

definition normalize_profile :: "wow_config \<Rightarrow> profile_doc \<Rightarrow> character_profile" where
  "normalize_profile c d =
     \<lparr>cp_name = pd_name d,
      cp_realm = or_str (opt_chain (pd_realm d) nm) (of_config (wow_realm c)),
      cp_class = or_str (opt_chain (pd_character_class d) nm) (Val ''Unknown''),
      cp_race = or_str (opt_chain (pd_race d) nm) (Val ''Unknown''),
      cp_level = or_number (pd_level d) (Val 80),
      cp_faction = or_str (opt_chain (pd_faction d) nm) (Val ''Unknown''),
      cp_itemLevel = or_number (pd_equipped_item_level d) (Val 0),
      cp_averageItemLevel = or_number (pd_average_item_level d) (Val 0),
      cp_guild = or_str (opt_chain (pd_guild d) nm) Null,
      cp_lastLogin = pd_last_login_timestamp d\<rparr>"

definition fetchCharacterProfile ::
  "blizzard_env \<Rightarrow> token_doc transport \<Rightarrow> profile_doc transport \<Rightarrow> world \<Rightarrow>
     (js_error + character_profile) \<times> world" where
  "fetchCharacterProfile env tnet net w =
     (case character_path (wow env) of
        Inl err \<Rightarrow> (Inl err, w)
      | Inr path \<Rightarrow>
          (case blizzardFetch env tnet net path w of
             (Val d, w') \<Rightarrow> (Inr (normalize_profile (wow env) d), w')
           | (_, w') \<Rightarrow> (Inr (getMockCharacterProfile (wow env) (now w')), w')))"

subsection \<open>Mythic+ profile\<close>

record color =
  col_r :: int
  col_g :: int
  col_b :: int

record rating_doc =
  rt_rating :: "rat js"
  rt_color :: "color js"

record run_doc =
  run_dungeon :: "named js"
  run_keystone_level :: "int js"
  run_is_completed_within_time :: "bool js"
  run_duration :: "int js"
  run_keystone_affixes :: "named list js"

record mythic_doc =
  md_mythic_rating :: "rating_doc js"
  md_best_runs :: "run_doc list js"

record best_run =
  br_dungeon :: "string js"
  br_level :: "int js"
  br_completedInTime :: "bool js"
  br_duration :: "int js"
  br_affixes :: "string js list"

record mythic_profile =
  mp_rating :: "rat js"
  mp_ratingColor :: "color js"
  mp_bestRuns :: "best_run list"

definition mythic_path :: "wow_config \<Rightarrow> js_error + string" where
  "mythic_path c =
     (case character_path c of
        Inl err \<Rightarrow> Inl err
      | Inr p \<Rightarrow> Inr (p @ ''/mythic-keystone-profile/season/current''))"

definition normalize_run :: "run_doc \<Rightarrow> best_run" where
  "normalize_run run =
     \<lparr>br_dungeon = or_str (opt_chain (run_dungeon run) nm) (Val ''Unknown''),
      br_level = or_number (run_keystone_level run) (Val 0),
      br_completedInTime = or_bool (run_is_completed_within_time run) (Val False),
      br_duration = or_number (run_duration run) (Val 0),
      br_affixes = map nm (or_empty (run_keystone_affixes run))\<rparr>"

definition normalize_mythic :: "mythic_doc \<Rightarrow> mythic_profile" where
  "normalize_mythic d =
     \<lparr>mp_rating = or_number (opt_chain (md_mythic_rating d) rt_rating) (Val 0),
      mp_ratingColor =
        or_obj (opt_chain (md_mythic_rating d) rt_color) (Val \<lparr>col_r = 255, col_g = 255, col_b = 255\<rparr>),
      mp_bestRuns = map normalize_run (take 5 (or_empty (md_best_runs d)))\<rparr>"

definition getMockMythicPlusProfile :: mythic_profile where
  "getMockMythicPlusProfile =
     \<lparr>mp_rating = Val 2847,
      mp_ratingColor = Val \<lparr>col_r = 255, col_g = 128, col_b = 0\<rparr>,
      mp_bestRuns =
        [\<lparr>br_dungeon = Val ''The Stonevault'', br_level = Val 12, br_completedInTime = Val True,
          br_duration = Val 1800000, br_affixes = [Val ''Fortified'', Val ''Entangling'']\<rparr>,
         \<lparr>br_dungeon = Val ''Mists of Tirna Scithe'', br_level = Val 11, br_completedInTime = Val True,
          br_duration = Val 1650000, br_affixes = [Val ''Tyrannical'', Val ''Incorporeal'']\<rparr>,
         \<lparr>br_dungeon = Val ''The Dawnbreaker'', br_level = Val 11, br_completedInTime = Val False,
          br_duration = Val 2100000, br_affixes = [Val ''Fortified'', Val ''Afflicted'']\<rparr>,
         \<lparr>br_dungeon = Val ''Ara-Kara'', br_level = Val 10, br_completedInTime = Val True,
          br_duration = Val 1500000, br_affixes = [Val ''Tyrannical'', Val ''Spiteful'']\<rparr>,
         \<lparr>br_dungeon = Val ''City of Threads'', br_level = Val 10, br_completedInTime = Val True,
          br_duration = Val 1700000, br_affixes = [Val ''Fortified'', Val ''Bursting'']\<rparr>]\<rparr>"

definition fetchMythicPlusProfile ::
  "blizzard_env \<Rightarrow> token_doc transport \<Rightarrow> mythic_doc transport \<Rightarrow> world \<Rightarrow>
     (js_error + mythic_profile) \<times> world" where
  "fetchMythicPlusProfile env tnet net w =
     (case mythic_path (wow env) of
        Inl err \<Rightarrow> (Inl err, w)
      | Inr path \<Rightarrow>
          (case blizzardFetch env tnet net path w of
             (Val d, w') \<Rightarrow> (Inr (normalize_mythic d), w')
           | (_, w') \<Rightarrow> (Inr getMockMythicPlusProfile, w')))"

subsection \<open>Raid progress\<close>

record status_doc =
  st_type :: "string js"

record progress_doc =
  pg_completed_count :: "int js"
  pg_total_count :: "int js"

record mode_doc =
  mo_difficulty :: "named js"
  mo_status :: "status_doc js"
  mo_progress :: "progress_doc js"

record instance_doc =
  in_instance :: "named js"
  in_modes :: "mode_doc list js"

record expansion_doc =
  ex_expansion :: "named js"
  ex_instances :: "instance_doc list js"

record raids_doc =
  rd_expansions :: "expansion_doc list js"

record raid_mode =
  rm_difficulty :: "string js"
  rm_status :: "string js"
  rm_progress :: string

record raid =
  raid_name :: "string js"
  raid_modes :: "raid_mode list"

record raid_progress =
  rp_expansionName :: "string js"
  rp_raids :: "raid list"

definition raids_path :: "wow_config \<Rightarrow> js_error + string" where
  "raids_path c =
     (case character_path c of
        Inl err \<Rightarrow> Inl err
      | Inr p \<Rightarrow> Inr (p @ ''/encounters/raids''))"

definition normalize_mode :: "mode_doc \<Rightarrow> raid_mode" where
  "normalize_mode m =
     \<lparr>rm_difficulty = or_str (opt_chain (mo_difficulty m) nm) (Val ''Unknown''),
      rm_status = or_str (opt_chain (mo_status m) st_type) (Val ''INCOMPLETE''),
      rm_progress =
        num_to_string (or_number (opt_chain (mo_progress m) pg_completed_count) (Val 0)) @ ''/'' @
        num_to_string (or_number (opt_chain (mo_progress m) pg_total_count) (Val 0))\<rparr>"

definition normalize_raid :: "instance_doc \<Rightarrow> raid" where
  "normalize_raid i =
     \<lparr>raid_name = or_str (opt_chain (in_instance i) nm) (Val ''Unknown Raid''),
      raid_modes = map normalize_mode (or_empty (in_modes i))\<rparr>"

text \<open>\<open>expansions[expansions.length - 1]\<close>\<close>

definition last_elem :: "'a list \<Rightarrow> 'a js" where
  "last_elem xs = (if xs = [] then Undefined else Val (last xs))"

definition getMockRaidProgress :: raid_progress where
  "getMockRaidProgress =
     \<lparr>rp_expansionName = Val ''The War Within'',
      rp_raids =
        [\<lparr>raid_name = Val ''Nerub-ar Palace'',
          raid_modes =
            [\<lparr>rm_difficulty = Val ''LFR'', rm_status = Val ''COMPLETE'', rm_progress = ''8/8''\<rparr>,
             \<lparr>rm_difficulty = Val ''Normal'', rm_status = Val ''COMPLETE'', rm_progress = ''8/8''\<rparr>,
             \<lparr>rm_difficulty = Val ''Heroic'', rm_status = Val ''COMPLETE'', rm_progress = ''8/8''\<rparr>,
             \<lparr>rm_difficulty = Val ''Mythic'', rm_status = Val ''IN_PROGRESS'', rm_progress = ''5/8''\<rparr>]\<rparr>]\<rparr>"

definition fetchRaidProgress ::
  "blizzard_env \<Rightarrow> token_doc transport \<Rightarrow> raids_doc transport \<Rightarrow> world \<Rightarrow>
     (js_error + raid_progress) \<times> world" where
  "fetchRaidProgress env tnet net w =
     (case raids_path (wow env) of
        Inl err \<Rightarrow> (Inl err, w)
      | Inr path \<Rightarrow>
          (case blizzardFetch env tnet net path w of
             (Val d, w') \<Rightarrow>
               (case last_elem (or_empty (rd_expansions d)) of
                  Val currentExpansion \<Rightarrow>
                    (case ex_instances currentExpansion of
                       Val instances \<Rightarrow>
                         (Inr \<lparr>rp_expansionName =
                                 or_str (opt_chain (ex_expansion currentExpansion) nm)
                                   (Val ''Current Expansion''),
                               rp_raids = map normalize_raid instances\<rparr>, w')
                     | _ \<Rightarrow> (Inr getMockRaidProgress, w'))
                | _ \<Rightarrow> (Inr getMockRaidProgress, w'))
           | (_, w') \<Rightarrow> (Inr getMockRaidProgress, w')))"

subsection \<open>\<open>Promise.all\<close>\<close>

text \<open>
  The constituents of a \<open>Promise.all\<close> are all started in the same world, before any of
  them settles. The joined world holds every request they sent (listed per constituent, in
  argument order). When all are fulfilled the join settles as the last constituent does;
  otherwise it rejects with the error of the constituent that rejects first (the leftmost,
  among several at the same clock reading), at that reading. The joins below end in a
  branch for \<open>first_rejection\<close> finding nothing; it is never taken, since that branch is
  reached only when a constituent has rejected.
\<close>

definition new_sent :: "world \<Rightarrow> world \<Rightarrow> request list" where
  "new_sent w w' = drop (length (sent w)) (sent w')"

definition rejection :: "(js_error + 'a) \<times> world \<Rightarrow> js_error option \<times> int" where
  "rejection p = (case fst p of Inl e \<Rightarrow> Some e | Inr _ \<Rightarrow> None, now (snd p))"

fun first_rejection :: "(js_error option \<times> int) list \<Rightarrow> (js_error \<times> int) option" where
  "first_rejection [] = None"
| "first_rejection ((None, t) # ps) = first_rejection ps"
| "first_rejection ((Some e, t) # ps) =
     (case first_rejection ps of
        None \<Rightarrow> Some (e, t)
      | Some (e', t') \<Rightarrow> if t' < t then Some (e', t') else Some (e, t))"

subsection \<open>\<open>fetchAllWoWData\<close>\<close>

record wow_data =
  wd_profile :: character_profile
  wd_mythicPlus :: mythic_profile
  wd_raids :: raid_progress
  wd_isMockData :: bool

text \<open>
  The three constituents run \<open>getAccessToken\<close> from the same cache at the same clock
  reading and so leave the same cache; it is the cache of the joined world, which
  \<open>isMockData: !accessToken\<close> reads.
\<close>

definition fetchAllWoWData ::
  "blizzard_env \<Rightarrow> token_doc transport \<Rightarrow> profile_doc transport \<Rightarrow> mythic_doc transport \<Rightarrow>
     raids_doc transport \<Rightarrow> world \<Rightarrow> (js_error + wow_data) \<times> world" where
  "fetchAllWoWData env tnet pnet mnet rnet w =
     (let p1 = fetchCharacterProfile env tnet pnet w;
          p2 = fetchMythicPlusProfile env tnet mnet w;
          p3 = fetchRaidProgress env tnet rnet w;
          w' = (snd p1)\<lparr>sent := sent w @ new_sent w (snd p1) @ new_sent w (snd p2) @ new_sent w (snd p3)\<rparr>
      in case (fst p1, fst p2, fst p3) of
           (Inr profile, Inr mythicPlus, Inr raids) \<Rightarrow>
             (Inr \<lparr>wd_profile = profile, wd_mythicPlus = mythicPlus, wd_raids = raids,
                   wd_isMockData = (\<not> truthy_str (accessToken w'))\<rparr>,
              w'\<lparr>now := max (now (snd p1)) (max (now (snd p2)) (now (snd p3)))\<rparr>)
         | _ \<Rightarrow>
             (case first_rejection [rejection p1, rejection p2, rejection p3] of
                Some (e, t) \<Rightarrow> (Inl e, w'\<lparr>now := t\<rparr>)
              | None \<Rightarrow> (Inl (JsError ''Error'' []), w')))"

section \<open>Steam (\<open>steam.js\<close>)\<close>

record steam_config =
  apis_steam :: string
  steam_steamId :: "string option"
  steam_apiKey :: "string option"

text \<open>\<open>API_KEY && API_KEY.length > 0 && STEAM_ID && !STEAM_ID.includes('0000000000')\<close>\<close>

definition hasValidCredentials :: "steam_config \<Rightarrow> bool" where
  "hasValidCredentials c =
     (config_set (steam_apiKey c) \<and> 0 < length (to_string (of_config (steam_apiKey c))) \<and>
      config_set (steam_steamId c) \<and>
      \<not> str_includes (to_string (of_config (steam_steamId c))) ''0000000000'')"

text \<open>
  The catch blocks of \<open>fetchPlayerSummary\<close>, \<open>fetchOwnedGames\<close> and \<open>fetchRecentGames\<close>
  substitute mock data for an error that satisfies this test and rethrow every other error.
\<close>

definition cors_like :: "js_error \<Rightarrow> bool" where
  "cors_like e =
     (str_includes (err_message e) ''CORS'' \<or> str_includes (err_message e) ''NetworkError'' \<or>
      err_name e = ''TypeError'')"

text \<open>
  The common head of the four try blocks: send the request, throw on a status that is not
  ok, read the JSON body. A body that is JSON \<open>null\<close> comes back as \<open>Null\<close>; reading
  \<open>data.response\<close> from it throws a \<open>TypeError\<close>.
\<close>

definition steam_get :: "'b transport \<Rightarrow> string \<Rightarrow> world \<Rightarrow> (js_error + 'b) \<times> world" where
  "steam_get net url w =
     (case fetch net (get_request url []) w of
        (Rejects err, w') \<Rightarrow> (Inl err, w')
      | (Resolves r, w') \<Rightarrow>
          if \<not> ok r then (Inl (JsError ''Error'' (''Steam API error: '' @ show_nat (status r))), w')
          else (case json r of
                  NotJson msg \<Rightarrow> (Inl (JsError ''SyntaxError'' msg), w')
                | JsonNull \<Rightarrow> (Inl (JsError ''TypeError'' ''Cannot read properties of null''), w')
                | Doc d \<Rightarrow> (Inr d, w')))"

subsection \<open>Player summary\<close>

record steam_player =
  sp_steamid :: "string js"
  sp_personaname :: "string js"
  sp_avatarfull :: "string js"
  sp_profileurl :: "string js"
  sp_personastate :: "int js"
  sp_lastlogoff :: "int js"
  sp_timecreated :: "int js"
  sp_realname :: "string js"
  sp_loccountrycode :: "string js"

record players_response =
  pr_players :: "steam_player list js"

record players_doc =
  pl_response :: "players_response js"

record player_summary =
  ps_steamId :: "string js"
  ps_personaName :: "string js"
  ps_avatarUrl :: "string js"
  ps_profileUrl :: "string js"
  ps_personaState :: "int js"
  ps_lastLogoff :: "int js"
  ps_timeCreated :: "int js"
  ps_realName :: "string js"
  ps_countryCode :: "string js"

definition getMockPlayerSummary :: "int \<Rightarrow> player_summary" where
  "getMockPlayerSummary t =
     \<lparr>ps_steamId = Val ''76561198000000000'',
      ps_personaName = Val ''GamerTag'',
      ps_avatarUrl =
        Val ''https://avatars.steamstatic.com/fef49e7fa7e1997310d705b2a6158ff8dc1cdfeb_full.jpg'',
      ps_profileUrl = Val ''https://steamcommunity.com/profiles/76561198000000000'',
      ps_personaState = Val 1,
      ps_lastLogoff = Val (t div 1000 - 3600),
      ps_timeCreated = Val 1293753600,
      ps_realName = Null,
      ps_countryCode = Val ''US''\<rparr>"

text \<open>\<open>xs?.[0]\<close> on an array.\<close>

definition first_elem :: "'a list \<Rightarrow> 'a js" where
  "first_elem xs = (case xs of [] \<Rightarrow> Undefined | x # _ \<Rightarrow> Val x)"

definition normalize_player :: "steam_player \<Rightarrow> player_summary" where
  "normalize_player player =
     \<lparr>ps_steamId = sp_steamid player,
      ps_personaName = sp_personaname player,
      ps_avatarUrl = sp_avatarfull player,
      ps_profileUrl = sp_profileurl player,
      ps_personaState = sp_personastate player,
      ps_lastLogoff = sp_lastlogoff player,
      ps_timeCreated = sp_timecreated player,
      ps_realName = sp_realname player,
      ps_countryCode = sp_loccountrycode player\<rparr>"

definition player_summary_url :: "steam_config \<Rightarrow> string" where
  "player_summary_url c =
     apis_steam c @ ''/ISteamUser/GetPlayerSummaries/v2/?key='' @ to_string (of_config (steam_apiKey c)) @
     ''&steamids='' @ to_string (of_config (steam_steamId c))"

definition fetchPlayerSummary ::
  "steam_config \<Rightarrow> players_doc transport \<Rightarrow> world \<Rightarrow> (js_error + player_summary) \<times> world" where
  "fetchPlayerSummary c net w =
     (if \<not> hasValidCredentials c then (Inr (getMockPlayerSummary (now w)), w)
      else
        (let (tried, w') =
           (case steam_get net (player_summary_url c) w of
              (Inl err, w') \<Rightarrow> (Inl err, w')
            | (Inr d, w') \<Rightarrow>
                (case opt_chain (opt_chain (pl_response d) pr_players) first_elem of
                   Val player \<Rightarrow> (Inr (normalize_player player), w')
                 | _ \<Rightarrow> (Inl (JsError ''Error'' ''Player not found''), w')))
         in case tried of
              Inr summary \<Rightarrow> (Inr summary, w')
            | Inl error \<Rightarrow>
                if cors_like error then (Inr (getMockPlayerSummary (now w')), w')
                else (Inl error, w')))"

subsection \<open>Steam level\<close>

record level_response =
  lr_player_level :: "int js"

record level_doc =
  lv_response :: "level_response js"

definition getMockSteamLevel :: "int js" where
  "getMockSteamLevel = Val 42"

definition steam_level_url :: "steam_config \<Rightarrow> string" where
  "steam_level_url c =
     apis_steam c @ ''/IPlayerService/GetSteamLevel/v1/?key='' @ to_string (of_config (steam_apiKey c)) @
     ''&steamid='' @ to_string (of_config (steam_steamId c))"

definition fetchSteamLevel ::
  "steam_config \<Rightarrow> level_doc transport \<Rightarrow> world \<Rightarrow> (js_error + int js) \<times> world" where
  "fetchSteamLevel c net w =
     (if \<not> hasValidCredentials c then (Inr getMockSteamLevel, w)
      else
        (case steam_get net (steam_level_url c) w of
           (Inr d, w') \<Rightarrow> (Inr (or_number (opt_chain (lv_response d) lr_player_level) (Val 0)), w')
         | (Inl error, w') \<Rightarrow> (Inr getMockSteamLevel, w')))"

subsection \<open>Owned games\<close>

record steam_game =
  sg_appid :: "int js"
  sg_name :: "string js"
  sg_playtime_forever :: "int js"
  sg_playtime_2weeks :: "int js"
  sg_img_icon_url :: "string js"
  sg_rtime_last_played :: "int js"

record owned_response =
  ow_game_count :: "int js"
  ow_games :: "steam_game list js"

record owned_doc =
  ow_response :: "owned_response js"

text \<open>A JavaScript number that need not be an integer; \<open>None\<close> is \<open>NaN\<close>.\<close>

type_synonym js_number = "rat option"

record owned_game =
  og_appId :: "int js"
  og_name :: "string js"
  og_playtimeMinutes :: "int js"
  og_playtimeHours :: js_number
  og_playtime2Weeks :: "int js"
  og_iconUrl :: "string js"
  og_logoUrl :: string
  og_lastPlayed :: "int js"

record owned_games =
  ogs_totalCount :: "int js"
  ogs_games :: "owned_game list"

text \<open>
  \<open>Math.round((minutes / 60) * 10) / 10\<close>, in exact rational arithmetic (the rounding of
  the two floating-point operations is not modelled); \<open>Math.round x\<close> is
  \<open>\<lfloor>x + 1/2\<rfloor>\<close>.
\<close>

definition hours_of :: "int js \<Rightarrow> js_number" where
  "hours_of minutes =
     (case to_number minutes of
        None \<Rightarrow> None
      | Some m \<Rightarrow> Some (of_int \<lfloor>(of_int m / 60) * 10 + (1 / 2 :: rat)\<rfloor> / 10))"

definition icon_url :: "steam_game \<Rightarrow> string js" where
  "icon_url game =
     (if truthy_str (sg_img_icon_url game)
      then Val (''https://media.steampowered.com/steamcommunity/public/images/apps/'' @
                num_to_string (sg_appid game) @ ''/'' @ to_string (sg_img_icon_url game) @ ''.jpg'')
      else Null)"

definition logo_url :: "steam_game \<Rightarrow> string" where
  "logo_url game =
     ''https://steamcdn-a.akamaihd.net/steam/apps/'' @ num_to_string (sg_appid game) @ ''/header.jpg''"

definition normalize_owned :: "steam_game \<Rightarrow> owned_game" where
  "normalize_owned game =
     \<lparr>og_appId = sg_appid game,
      og_name = sg_name game,
      og_playtimeMinutes = sg_playtime_forever game,
      og_playtimeHours = hours_of (sg_playtime_forever game),
      og_playtime2Weeks = or_number (sg_playtime_2weeks game) (Val 0),
      og_iconUrl = icon_url game,
      og_logoUrl = logo_url game,
      og_lastPlayed = sg_rtime_last_played game\<rparr>"

text \<open>
  \<open>Array.prototype.sort\<close> with a comparator. A comparator value of \<open>NaN\<close> counts as 0.
  The sort is stable, and for a consistent comparator its result is the one a stable
  insertion sort gives, which is what \<open>js_sort\<close> computes. For an inconsistent comparator
  (here: when a game has no \<open>playtime_forever\<close>) ECMAScript leaves the order to the
  engine, and engines that insert by binary search order some such lists differently from
  \<open>js_sort\<close>. The statements below use \<open>js_sort\<close> on such a list at one input only, the
  three games of \<open>gap_games\<close>, where every comparison the engines make is between
  neighbours and yields \<open>NaN\<close>, so that no element moves.
\<close>

definition js_minus :: "int js \<Rightarrow> int js \<Rightarrow> int option" where
  "js_minus a b =
     (case (to_number a, to_number b) of (Some x, Some y) \<Rightarrow> Some (x - y) | _ \<Rightarrow> None)"

definition sort_compare :: "('a \<Rightarrow> 'a \<Rightarrow> int option) \<Rightarrow> 'a \<Rightarrow> 'a \<Rightarrow> int" where
  "sort_compare cmp a b = (case cmp a b of None \<Rightarrow> 0 | Some v \<Rightarrow> v)"

fun insert_sorted :: "('a \<Rightarrow> 'a \<Rightarrow> int option) \<Rightarrow> 'a \<Rightarrow> 'a list \<Rightarrow> 'a list" where
  "insert_sorted cmp x [] = [x]"
| "insert_sorted cmp x (y # ys) =
     (if sort_compare cmp x y \<le> 0 then x # y # ys else y # insert_sorted cmp x ys)"

definition js_sort :: "('a \<Rightarrow> 'a \<Rightarrow> int option) \<Rightarrow> 'a list \<Rightarrow> 'a list" where
  "js_sort cmp xs = foldr (insert_sorted cmp) xs []"

text \<open>\<open>(a, b) => b.playtimeMinutes - a.playtimeMinutes\<close>\<close>

definition by_playtime :: "owned_game \<Rightarrow> owned_game \<Rightarrow> int option" where
  "by_playtime a b = js_minus (og_playtimeMinutes b) (og_playtimeMinutes a)"

definition owned_games_url :: "steam_config \<Rightarrow> string" where
  "owned_games_url c =
     apis_steam c @ ''/IPlayerService/GetOwnedGames/v1/?key='' @ to_string (of_config (steam_apiKey c)) @
     ''&steamid='' @ to_string (of_config (steam_steamId c)) @
     ''&include_appinfo=true&include_played_free_games=true''"

definition mock_owned_game :: "int \<Rightarrow> string \<Rightarrow> int \<Rightarrow> rat \<Rightarrow> int \<Rightarrow> string \<Rightarrow> int \<Rightarrow> owned_game" where
  "mock_owned_game appId name minutes hours twoWeeks logo lastPlayed =
     \<lparr>og_appId = Val appId, og_name = Val name, og_playtimeMinutes = Val minutes,
      og_playtimeHours = Some hours, og_playtime2Weeks = Val twoWeeks, og_iconUrl = Null,
      og_logoUrl = logo, og_lastPlayed = Val lastPlayed\<rparr>"

definition getMockOwnedGames :: "int \<Rightarrow> owned_games" where
  "getMockOwnedGames t =
     \<lparr>ogs_totalCount = Val 247,
      ogs_games =
        [mock_owned_game 730 ''Counter-Strike 2'' 18420 307 840
           ''https://steamcdn-a.akamaihd.net/steam/apps/730/header.jpg'' (t div 1000 - 86400),
         mock_owned_game 1245620 ''Elden Ring'' 9600 160 420
           ''https://steamcdn-a.akamaihd.net/steam/apps/1245620/header.jpg'' (t div 1000 - 172800),
         mock_owned_game 570 ''Dota 2'' 7200 120 0
           ''https://steamcdn-a.akamaihd.net/steam/apps/570/header.jpg'' (t div 1000 - 604800),
         mock_owned_game 1172470 ''Apex Legends'' 5400 90 180
           ''https://steamcdn-a.akamaihd.net/steam/apps/1172470/header.jpg'' (t div 1000 - 259200),
         mock_owned_game 292030 ''The Witcher 3: Wild Hunt'' 4800 80 0
           ''https://steamcdn-a.akamaihd.net/steam/apps/292030/header.jpg'' (t div 1000 - 2592000),
         mock_owned_game 1086940 (''Baldur'' @ [CHR 0x27] @ ''s Gate 3'') 4200 70 300
           ''https://steamcdn-a.akamaihd.net/steam/apps/1086940/header.jpg'' (t div 1000 - 43200),
         mock_owned_game 413150 ''Stardew Valley'' 3600 60 120
           ''https://steamcdn-a.akamaihd.net/steam/apps/413150/header.jpg'' (t div 1000 - 86400),
         mock_owned_game 1091500 ''Cyberpunk 2077'' 3000 50 0
           ''https://steamcdn-a.akamaihd.net/steam/apps/1091500/header.jpg'' (t div 1000 - 1209600)]\<rparr>"

definition fetchOwnedGames ::
  "steam_config \<Rightarrow> owned_doc transport \<Rightarrow> world \<Rightarrow> (js_error + owned_games) \<times> world" where
  "fetchOwnedGames c net w =
     (if \<not> hasValidCredentials c then (Inr (getMockOwnedGames (now w)), w)
      else
        (case steam_get net (owned_games_url c) w of
           (Inr d, w') \<Rightarrow>
             (let games = or_empty (opt_chain (ow_response d) ow_games)
              in (Inr \<lparr>ogs_totalCount =
                         or_number (opt_chain (ow_response d) ow_game_count) (Val (int (length games))),
                       ogs_games = js_sort by_playtime (map normalize_owned games)\<rparr>, w'))
         | (Inl error, w') \<Rightarrow>
             if cors_like error then (Inr (getMockOwnedGames (now w')), w')
             else (Inl error, w')))"

subsection \<open>Recently played games\<close>

record recent_response =
  rc_total_count :: "int js"
  rc_games :: "steam_game list js"

record recent_doc =
  rc_response :: "recent_response js"

record recent_game =
  rg_appId :: "int js"
  rg_name :: "string js"
  rg_playtimeMinutes :: "int js"
  rg_playtimeHours :: js_number
  rg_playtime2WeeksMinutes :: "int js"
  rg_playtime2WeeksHours :: js_number
  rg_iconUrl :: "string js"
  rg_logoUrl :: string

record recent_games =
  rgs_totalCount :: "int js"
  rgs_games :: "recent_game list"

definition normalize_recent :: "steam_game \<Rightarrow> recent_game" where
  "normalize_recent game =
     \<lparr>rg_appId = sg_appid game,
      rg_name = sg_name game,
      rg_playtimeMinutes = sg_playtime_forever game,
      rg_playtimeHours = hours_of (sg_playtime_forever game),
      rg_playtime2WeeksMinutes = sg_playtime_2weeks game,
      rg_playtime2WeeksHours = hours_of (sg_playtime_2weeks game),
      rg_iconUrl = icon_url game,
      rg_logoUrl = logo_url game\<rparr>"

definition recent_games_url :: "steam_config \<Rightarrow> int \<Rightarrow> string" where
  "recent_games_url c cnt =
     apis_steam c @ ''/IPlayerService/GetRecentlyPlayedGames/v1/?key='' @
     to_string (of_config (steam_apiKey c)) @ ''&steamid='' @ to_string (of_config (steam_steamId c)) @
     ''&count='' @ show_int cnt"

definition mock_recent_game :: "int \<Rightarrow> string \<Rightarrow> int \<Rightarrow> rat \<Rightarrow> int \<Rightarrow> rat \<Rightarrow> string \<Rightarrow> recent_game" where
  "mock_recent_game appId name minutes hours twoWeeks twoWeeksHours logo =
     \<lparr>rg_appId = Val appId, rg_name = Val name, rg_playtimeMinutes = Val minutes,
      rg_playtimeHours = Some hours, rg_playtime2WeeksMinutes = Val twoWeeks,
      rg_playtime2WeeksHours = Some twoWeeksHours, rg_iconUrl = Null, rg_logoUrl = logo\<rparr>"

definition getMockRecentGames :: recent_games where
  "getMockRecentGames =
     \<lparr>rgs_totalCount = Val 5,
      rgs_games =
        [mock_recent_game 1086940 (''Baldur'' @ [CHR 0x27] @ ''s Gate 3'') 4200 70 300 5
           ''https://steamcdn-a.akamaihd.net/steam/apps/1086940/header.jpg'',
         mock_recent_game 730 ''Counter-Strike 2'' 18420 307 840 14
           ''https://steamcdn-a.akamaihd.net/steam/apps/730/header.jpg'',
         mock_recent_game 1245620 ''Elden Ring'' 9600 160 420 7
           ''https://steamcdn-a.akamaihd.net/steam/apps/1245620/header.jpg'',
         mock_recent_game 1172470 ''Apex Legends'' 5400 90 180 3
           ''https://steamcdn-a.akamaihd.net/steam/apps/1172470/header.jpg'',
         mock_recent_game 413150 ''Stardew Valley'' 3600 60 120 2
           ''https://steamcdn-a.akamaihd.net/steam/apps/413150/header.jpg'']\<rparr>"

definition fetchRecentGames ::
  "steam_config \<Rightarrow> recent_doc transport \<Rightarrow> int \<Rightarrow> world \<Rightarrow> (js_error + recent_games) \<times> world" where
  "fetchRecentGames c net cnt w =
     (if \<not> hasValidCredentials c then (Inr getMockRecentGames, w)
      else
        (case steam_get net (recent_games_url c cnt) w of
           (Inr d, w') \<Rightarrow>
             (let games = or_empty (opt_chain (rc_response d) rc_games)
              in (Inr \<lparr>rgs_totalCount =
                         or_number (opt_chain (rc_response d) rc_total_count) (Val (int (length games))),
                       rgs_games = map normalize_recent games\<rparr>, w'))
         | (Inl error, w') \<Rightarrow>
             if cors_like error then (Inr getMockRecentGames, w')
             else (Inl error, w')))"

subsection \<open>\<open>fetchAllSteamData\<close>\<close>

text \<open>\<open>{ ...playerSummary, level: steamLevel }\<close>\<close>

record steam_profile = player_summary +
  ps_level :: "int js"

record steam_data =
  sd_profile :: steam_profile
  sd_ownedGames :: owned_games
  sd_recentGames :: recent_games
  sd_isMockData :: bool

definition fetchAllSteamData ::
  "steam_config \<Rightarrow> players_doc transport \<Rightarrow> level_doc transport \<Rightarrow> owned_doc transport \<Rightarrow>
     recent_doc transport \<Rightarrow> world \<Rightarrow> (js_error + steam_data) \<times> world" where
  "fetchAllSteamData c pnet lnet onet rnet w =
     (let p1 = fetchPlayerSummary c pnet w;
          p2 = fetchSteamLevel c lnet w;
          p3 = fetchOwnedGames c onet w;
          p4 = fetchRecentGames c rnet 10 w;
          w' = w\<lparr>sent := sent w @ new_sent w (snd p1) @ new_sent w (snd p2) @ new_sent w (snd p3) @
                        new_sent w (snd p4)\<rparr>
      in case (fst p1, fst p2, fst p3, fst p4) of
           (Inr playerSummary, Inr steamLevel, Inr ownedGames, Inr recentGames) \<Rightarrow>
             (Inr \<lparr>sd_profile = player_summary.extend playerSummary \<lparr>ps_level = steamLevel\<rparr>,
                   sd_ownedGames = ownedGames,
                   sd_recentGames = recentGames,
                   sd_isMockData = (\<not> hasValidCredentials c)\<rparr>,
              w'\<lparr>now := max (max (now (snd p1)) (now (snd p2))) (max (now (snd p3)) (now (snd p4)))\<rparr>)
         | _ \<Rightarrow>
             (case first_rejection [rejection p1, rejection p2, rejection p3, rejection p4] of
                Some (e, t) \<Rightarrow> (Inl e, w'\<lparr>now := t\<rparr>)
              | None \<Rightarrow> (Inl (JsError ''Error'' []), w')))"

section \<open>Path of Exile (second module of \<open>blizzard.js\<close>)\<close>

record poe_config =
  apis_poe :: string
  poe2_accountName :: "string option"
  poe2_realm :: "string option"

definition poe_request :: "poe_config \<Rightarrow> string \<Rightarrow> request" where
  "poe_request c path = get_request (apis_poe c @ path) [(''User-Agent'', ''Portfolio-Display/1.0'')]"

subsection \<open>Characters\<close>

text \<open>The entries of the character and league lists are handed on as they arrive.\<close>

record poe_character =
  pc_name :: "string js"
  pc_class :: "string js"
  pc_level :: "int js"
  pc_league :: "string js"
  pc_experience :: "int js"
  pc_lastActive :: "int js"

record characters_doc =
  cd_characters :: "poe_character list js"

record characters_data =
  chd_characters :: "poe_character list"
  chd_isMockData :: bool

definition mock_character :: "string \<Rightarrow> string \<Rightarrow> int \<Rightarrow> string \<Rightarrow> int \<Rightarrow> int \<Rightarrow> poe_character" where
  "mock_character name cls level league experience lastActive =
     \<lparr>pc_name = Val name, pc_class = Val cls, pc_level = Val level, pc_league = Val league,
      pc_experience = Val experience, pc_lastActive = Val lastActive\<rparr>"

definition getMockCharacters :: "int \<Rightarrow> characters_data" where
  "getMockCharacters t =
     \<lparr>chd_characters =
        [mock_character ''ShadowBlade'' ''Mercenary'' 92 ''Settlers'' 2847593847 (t - 3600000),
         mock_character ''FrostWitch'' ''Sorceress'' 88 ''Settlers'' 1293847562 (t - 86400000),
         mock_character ''BoneWarrior'' ''Warrior'' 85 ''Settlers'' 983746251 (t - 172800000),
         mock_character ''StormMonk'' ''Monk'' 78 ''Standard'' 487293651 (t - 604800000),
         mock_character ''VoidHunter'' ''Ranger'' 71 ''Settlers'' 287463912 (t - 259200000)],
      chd_isMockData = True\<rparr>"

text \<open>
  Every error thrown inside the try block, also the \<open>TypeError\<close> of reading
  \<open>data.characters\<close> from a JSON \<open>null\<close>, ends in the catch block, which returns the mock.
\<close>

definition fetchCharacters :: "poe_config \<Rightarrow> characters_doc transport \<Rightarrow> world \<Rightarrow> characters_data \<times> world" where
  "fetchCharacters c net w =
     (case fetch net (poe_request c ''/character'') w of
        (Rejects err, w') \<Rightarrow> (getMockCharacters (now w'), w')
      | (Resolves r, w') \<Rightarrow>
          if \<not> ok r then
            (if status r = 401 \<or> status r = 403 then (getMockCharacters (now w'), w')
             else (getMockCharacters (now w'), w'))
          else (case json r of
                  NotJson msg \<Rightarrow> (getMockCharacters (now w'), w')
                | JsonNull \<Rightarrow> (getMockCharacters (now w'), w')
                | Doc d \<Rightarrow>
                    (\<lparr>chd_characters = or_empty (cd_characters d), chd_isMockData = False\<rparr>, w')))"

subsection \<open>Leagues\<close>

record poe_rule =
  rule_id :: "string js"
  rule_name :: "string js"

record poe_league =
  lg_id :: "string js"
  lg_name :: "string js"
  lg_realm :: "string js"
  lg_startAt :: "string js"
  lg_endAt :: "string js"
  lg_rules :: "poe_rule list js"

record leagues_doc =
  ld_leagues :: "poe_league list js"

record leagues_data =
  lgd_leagues :: "poe_league list"
  lgd_isMockData :: bool

definition getMockLeagues :: leagues_data where
  "getMockLeagues =
     \<lparr>lgd_leagues =
        [\<lparr>lg_id = Val ''Settlers'', lg_name = Val ''Settlers'', lg_realm = Val ''pc'',
          lg_startAt = Val ''2024-12-06T20:00:00Z'', lg_endAt = Null,
          lg_rules = Val [\<lparr>rule_id = Val ''settlers'', rule_name = Val ''Settlers''\<rparr>]\<rparr>,
         \<lparr>lg_id = Val ''Standard'', lg_name = Val ''Standard'', lg_realm = Val ''pc'',
          lg_startAt = Null, lg_endAt = Null, lg_rules = Val []\<rparr>,
         \<lparr>lg_id = Val ''Hardcore'', lg_name = Val ''Hardcore'', lg_realm = Val ''pc'',
          lg_startAt = Null, lg_endAt = Null,
          lg_rules = Val [\<lparr>rule_id = Val ''Hardcore'', rule_name = Val ''Hardcore''\<rparr>]\<rparr>],
      lgd_isMockData = True\<rparr>"

definition fetchLeagues :: "poe_config \<Rightarrow> leagues_doc transport \<Rightarrow> world \<Rightarrow> leagues_data \<times> world" where
  "fetchLeagues c net w =
     (case fetch net (poe_request c ''/league'') w of
        (Rejects err, w') \<Rightarrow> (getMockLeagues, w')
      | (Resolves r, w') \<Rightarrow>
          if \<not> ok r then (getMockLeagues, w')
          else (case json r of
                  NotJson msg \<Rightarrow> (getMockLeagues, w')
                | JsonNull \<Rightarrow> (getMockLeagues, w')
                | Doc d \<Rightarrow> (\<lparr>lgd_leagues = or_empty (ld_leagues d), lgd_isMockData = False\<rparr>, w')))"

subsection \<open>Account profile\<close>

record poe_profile_doc =
  pp_name :: "string js"
  pp_realm :: "string js"

record account_profile =
  ap_name :: "string js"
  ap_realm :: "string js"
  ap_isMockData :: bool

definition mock_account_profile :: "poe_config \<Rightarrow> account_profile" where
  "mock_account_profile c =
     \<lparr>ap_name = of_config (poe2_accountName c), ap_realm = of_config (poe2_realm c),
      ap_isMockData = True\<rparr>"

definition fetchAccountProfile ::
  "poe_config \<Rightarrow> poe_profile_doc transport \<Rightarrow> world \<Rightarrow> account_profile \<times> world" where
  "fetchAccountProfile c net w =
     (case fetch net (poe_request c ''/profile'') w of
        (Rejects err, w') \<Rightarrow> (mock_account_profile c, w')
      | (Resolves r, w') \<Rightarrow>
          if \<not> ok r then (mock_account_profile c, w')
          else (case json r of
                  NotJson msg \<Rightarrow> (mock_account_profile c, w')
                | JsonNull \<Rightarrow> (mock_account_profile c, w')
                | Doc d \<Rightarrow>
                    (\<lparr>ap_name = or_str (pp_name d) (of_config (poe2_accountName c)),
                      ap_realm = or_str (pp_realm d) (of_config (poe2_realm c)),
                      ap_isMockData = False\<rparr>, w')))"

subsection \<open>\<open>getCurrentLeague\<close> and \<open>fetchAllPOE2Data\<close>\<close>

record placeholder_league =
  pl_name :: string
  pl_type :: string

datatype current_league = Placeholder placeholder_league | Listed poe_league

text \<open>
  The predicate of \<open>leagues.find\<close>; \<open>league.id.includes\<close> throws a \<open>TypeError\<close> when the
  league has no \<open>id\<close>.
\<close>

definition is_challenge :: "poe_league \<Rightarrow> js_error + bool" where
  "is_challenge league =
     (case lg_id league of
        Val i \<Rightarrow>
          Inr (\<not> str_includes i ''Standard'' \<and> \<not> str_includes i ''Hardcore'' \<and>
               \<not> str_includes i ''SSF'' \<and>
               (case lg_rules league of Val rs \<Rightarrow> 0 < length rs | _ \<Rightarrow> False))
      | _ \<Rightarrow> Inl (JsError ''TypeError'' ''Cannot read properties of undefined''))"

fun find_challenge :: "poe_league list \<Rightarrow> js_error + poe_league js" where
  "find_challenge [] = Inr Undefined"
| "find_challenge (league # leagues) =
     (case is_challenge league of
        Inl err \<Rightarrow> Inl err
      | Inr True \<Rightarrow> Inr (Val league)
      | Inr False \<Rightarrow> find_challenge leagues)"

definition getCurrentLeague :: "poe_league list \<Rightarrow> js_error + current_league" where
  "getCurrentLeague leagues =
     (if length leagues = 0
      then Inr (Placeholder \<lparr>pl_name = ''Settlers'', pl_type = ''Challenge League''\<rparr>)
      else (case find_challenge leagues of
              Inl err \<Rightarrow> Inl err
            | Inr (Val challengeLeague) \<Rightarrow> Inr (Listed challengeLeague)
            | Inr _ \<Rightarrow> Inr (Listed (hd leagues))))"

record poe2_data =
  p2_account :: account_profile
  p2_characters :: "poe_character list"
  p2_leagues :: "poe_league list"
  p2_currentLeague :: current_league
  p2_isMockData :: bool

text \<open>
  An array is truthy, so \<open>charactersData.characters || charactersData\<close> is the list, and
  likewise for the leagues. The three constituents never reject; \<open>getCurrentLeague\<close> may
  throw after the join.
\<close>

definition fetchAllPOE2Data ::
  "poe_config \<Rightarrow> characters_doc transport \<Rightarrow> leagues_doc transport \<Rightarrow> poe_profile_doc transport \<Rightarrow>
     world \<Rightarrow> (js_error + poe2_data) \<times> world" where
  "fetchAllPOE2Data c cnet lnet pnet w =
     (let (charactersData, w1) = fetchCharacters c cnet w;
          (leaguesData, w2) = fetchLeagues c lnet w;
          (profileData, w3) = fetchAccountProfile c pnet w;
          w' = w\<lparr>sent := sent w @ new_sent w w1 @ new_sent w w2 @ new_sent w w3,
                 now := max (now w1) (max (now w2) (now w3))\<rparr>
      in case getCurrentLeague (lgd_leagues leaguesData) of
           Inl err \<Rightarrow> (Inl err, w')
         | Inr currentLeague \<Rightarrow>
             (Inr \<lparr>p2_account = profileData,
                   p2_characters = chd_characters charactersData,
                   p2_leagues = lgd_leagues leaguesData,
                   p2_currentLeague = currentLeague,
                   p2_isMockData =
                     (chd_isMockData charactersData \<or> lgd_isMockData leaguesData \<or>
                      ap_isMockData profileData)\<rparr>, w'))"

section \<open>NFTs (the wallet service)\<close>

record nft_config =
  wallet_address :: "string option"

record nft_collection_doc =
  nc_name :: "string js"
  nc_slug :: "string js"

record nft_token_doc =
  nt_contract :: "string js"
  nt_tokenId :: "string js"
  nt_name :: "string js"
  nt_description :: "string js"
  nt_imageSmall :: "string js"
  nt_image :: "string js"
  nt_collection :: "nft_collection_doc js"

record nft_item_doc =
  ni_token :: "nft_token_doc js"

record tokens_doc =
  td_tokens :: "nft_item_doc list js"
  td_continuation :: "string js"

record nft_contract =
  nfc_address :: "string js"
  nfc_name :: "string js"

record nft_image =
  nfi_cachedUrl :: "string js"
  nfi_thumbnailUrl :: "string js"
  nfi_originalUrl :: "string js"

record nft_collection =
  nfl_name :: "string js"
  nfl_slug :: "string js"

record nft =
  nft_contract :: nft_contract
  nft_tokenId :: "string js"
  nft_name :: "string js"
  nft_description :: "string js"
  nft_image :: nft_image
  nft_collection :: nft_collection
  nft_raw :: nft_item_doc

record nft_page =
  np_nfts :: "nft list"
  np_continuation :: "string js"

definition normalize_nft :: "nft_item_doc \<Rightarrow> nft" where
  "normalize_nft item =
     \<lparr>nft_contract =
        \<lparr>nfc_address = opt_chain (ni_token item) nt_contract,
         nfc_name = opt_chain (opt_chain (ni_token item) nt_collection) nc_name\<rparr>,
      nft_tokenId = opt_chain (ni_token item) nt_tokenId,
      nft_name =
        or_str (opt_chain (ni_token item) nt_name)
          (Val (''#'' @ to_string (opt_chain (ni_token item) nt_tokenId))),
      nft_description = opt_chain (ni_token item) nt_description,
      nft_image =
        \<lparr>nfi_cachedUrl =
           or_str (opt_chain (ni_token item) nt_imageSmall) (opt_chain (ni_token item) nt_image),
         nfi_thumbnailUrl = opt_chain (ni_token item) nt_imageSmall,
         nfi_originalUrl = opt_chain (ni_token item) nt_image\<rparr>,
      nft_collection =
        \<lparr>nfl_name = opt_chain (opt_chain (ni_token item) nt_collection) nc_name,
         nfl_slug = opt_chain (opt_chain (ni_token item) nt_collection) nc_slug\<rparr>,
      nft_raw = item\<rparr>"

text \<open>
  The request of one page. \<open>URLSearchParams\<close> is taken as plain concatenation (nothing
  needs percent-encoding).
\<close>

definition nft_request :: "string \<Rightarrow> string js \<Rightarrow> int \<Rightarrow> request" where
  "nft_request address continuation limit =
     get_request
       (''https://api.reservoir.tools/users/'' @ address @ ''/tokens/v10?limit='' @
        show_int (min limit 100) @ ''&includeAttributes=true'' @
        (if truthy_str continuation then ''&continuation='' @ to_string continuation else []))
       [(''Accept'', ''application/json'')]"

definition zero_address :: string where
  "zero_address = ''0x0000000000000000000000000000000000000000''"

definition fetchNFTsForWallet ::
  "nft_config \<Rightarrow> tokens_doc transport \<Rightarrow> string js \<Rightarrow> string js \<Rightarrow> int \<Rightarrow> world \<Rightarrow>
     (js_error + nft_page) \<times> world" where
  "fetchNFTsForWallet c net walletAddress continuation limit w =
     (let address = or_str walletAddress (of_config (wallet_address c))
      in if \<not> truthy_str address \<or> address = Val zero_address
         then (Inl (JsError ''Error''
                 ''Wallet address is not configured. Please add your wallet address to config.js''), w)
         else
           (case fetch net (nft_request (to_string address) continuation limit) w of
              (Rejects err, w') \<Rightarrow> (Inl err, w')
            | (Resolves r, w') \<Rightarrow>
                if \<not> ok r
                then (Inl (JsError ''Error''
                        (''Reservoir API error: '' @ show_nat (status r) @ '' - '' @ body_text r)), w')
                else (case json r of
                        NotJson msg \<Rightarrow> (Inl (JsError ''SyntaxError'' msg), w')
                      | JsonNull \<Rightarrow> (Inl (JsError ''TypeError'' ''Cannot read properties of null''), w')
                      | Doc d \<Rightarrow>
                          (Inr \<lparr>np_nfts = map normalize_nft (or_empty (td_tokens d)),
                                np_continuation = or_str (td_continuation d) Null\<rparr>, w'))))"




section \<open>Predicates used in the statements\<close>

text \<open>
  \<open>a\<close> may stand before \<open>b\<close> in a list ordered by non-increasing \<open>playtimeMinutes\<close>:
  both have a numeric playtime and that of \<open>b\<close> is not the larger one.
\<close>

definition playtime_not_less :: "owned_game \<Rightarrow> owned_game \<Rightarrow> bool" where
  "playtime_not_less a b =
     (case (to_number (og_playtimeMinutes a), to_number (og_playtimeMinutes b)) of
        (Some x, Some y) \<Rightarrow> y \<le> x
      | _ \<Rightarrow> False)"

text \<open>
  The expected failures of one request: the server denies it (HTTP 401 or 403), or the
  request does not get through and \<open>fetch\<close> rejects with a \<open>TypeError\<close>, as the Fetch
  standard has it for a network error.
\<close>

definition denied :: "'b http_outcome \<times> nat \<Rightarrow> bool" where
  "denied p = (case fst p of Resolves r \<Rightarrow> status r = 401 \<or> status r = 403 | Rejects e \<Rightarrow> False)"

definition unreachable :: "'b http_outcome \<times> nat \<Rightarrow> bool" where
  "unreachable p = (case fst p of Rejects e \<Rightarrow> err_name e = ''TypeError'' | Resolves r \<Rightarrow> False)"

text \<open>The operation is fulfilled with the mock data made at the clock reading of its settling.\<close>

definition returns_mock :: "(js_error + 'a) \<times> world \<Rightarrow> (int \<Rightarrow> 'a) \<Rightarrow> bool" where
  "returns_mock res mock = (fst res = Inr (mock (now (snd res))))"

text \<open>The operation rejects: the error passes the adapter's boundary.\<close>

definition rejects :: "(js_error + 'a) \<times> world \<Rightarrow> bool" where
  "rejects res = isl (fst res)"

text \<open>The endpoints of the three character resources, for a configured character name.\<close>

definition endpoint_of :: "js_error + string \<Rightarrow> string" where
  "endpoint_of p = (case p of Inl err \<Rightarrow> [] | Inr path \<Rightarrow> path)"

text \<open>
  The expected failures of an authenticated Blizzard request started in world \<open>w\<close>: with
  no valid token cached, the credentials are missing or the token exchange fails; or a
  token is there and the request for the resource fails.
\<close>

definition blizzard_fails ::
  "blizzard_env \<Rightarrow> token_doc transport \<Rightarrow> 'b transport \<Rightarrow> string \<Rightarrow> world \<Rightarrow> bool" where
  "blizzard_fails env tnet net endpoint w =
     (let g = getAccessToken env tnet w
      in (\<not> cached_token_valid w \<and>
          (\<not> config_set (wow_clientId (wow env)) \<or> \<not> config_set (wow_clientSecret (wow env)) \<or>
           denied (tnet (token_request env) (now w)) \<or>
           unreachable (tnet (token_request env) (now w)))) \<or>
         (truthy_str (fst g) \<and>
          (denied (net (api_request env endpoint (fst g)) (now (snd g))) \<or>
           unreachable (net (api_request env endpoint (fst g)) (now (snd g))))))"

text \<open>The wallet address \<open>fetchNFTsForWallet\<close> works with is missing or the zero address.\<close>

definition wallet_unconfigured :: "nft_config \<Rightarrow> string js \<Rightarrow> bool" where
  "wallet_unconfigured c walletAddress =
     (\<not> truthy_str (or_str walletAddress (of_config (wallet_address c))) \<or>
      or_str walletAddress (of_config (wallet_address c)) = Val zero_address)"

text \<open>A member is set: it is not \<open>undefined\<close> (it may be \<open>null\<close>).\<close>

definition is_set :: "'a js \<Rightarrow> bool" where
  "is_set v = (v \<noteq> Undefined)"

text \<open>The members of the bundles for which the live path has a default.\<close>

definition profile_defaults_set :: "character_profile \<Rightarrow> bool" where
  "profile_defaults_set p =
     (is_set (cp_class p) \<and> is_set (cp_race p) \<and> is_set (cp_level p) \<and> is_set (cp_faction p) \<and>
      is_set (cp_itemLevel p) \<and> is_set (cp_averageItemLevel p) \<and> is_set (cp_guild p))"

definition run_defaults_set :: "best_run \<Rightarrow> bool" where
  "run_defaults_set r =
     (is_set (br_dungeon r) \<and> is_set (br_level r) \<and> is_set (br_completedInTime r) \<and>
      is_set (br_duration r))"

definition mythic_defaults_set :: "mythic_profile \<Rightarrow> bool" where
  "mythic_defaults_set m =
     (is_set (mp_rating m) \<and> is_set (mp_ratingColor m) \<and> list_all run_defaults_set (mp_bestRuns m))"

definition raid_defaults_set :: "raid \<Rightarrow> bool" where
  "raid_defaults_set rd =
     (is_set (raid_name rd) \<and>
      list_all (\<lambda>m. is_set (rm_difficulty m) \<and> is_set (rm_status m)) (raid_modes rd))"

definition raids_defaults_set :: "raid_progress \<Rightarrow> bool" where
  "raids_defaults_set r = (is_set (rp_expansionName r) \<and> list_all raid_defaults_set (rp_raids r))"

definition wow_defaults_set :: "wow_data \<Rightarrow> bool" where
  "wow_defaults_set b =
     (profile_defaults_set (wd_profile b) \<and> mythic_defaults_set (wd_mythicPlus b) \<and>
      raids_defaults_set (wd_raids b))"

definition steam_defaults_set :: "steam_data \<Rightarrow> bool" where
  "steam_defaults_set b =
     (is_set (ps_level (sd_profile b)) \<and>
      is_set (ogs_totalCount (sd_ownedGames b)) \<and>
      list_all (\<lambda>g. is_set (og_playtime2Weeks g) \<and> is_set (og_iconUrl g)) (ogs_games (sd_ownedGames b)) \<and>
      is_set (rgs_totalCount (sd_recentGames b)) \<and>
      list_all (\<lambda>g. is_set (rg_iconUrl g)) (rgs_games (sd_recentGames b)))"

text \<open>Every member of a bundle is set.\<close>

definition steam_complete :: "steam_data \<Rightarrow> bool" where
  "steam_complete b =
     (steam_defaults_set b \<and>
      is_set (ps_steamId (sd_profile b)) \<and> is_set (ps_personaName (sd_profile b)) \<and>
      is_set (ps_avatarUrl (sd_profile b)) \<and> is_set (ps_profileUrl (sd_profile b)) \<and>
      is_set (ps_personaState (sd_profile b)) \<and> is_set (ps_lastLogoff (sd_profile b)) \<and>
      is_set (ps_timeCreated (sd_profile b)) \<and> is_set (ps_realName (sd_profile b)) \<and>
      is_set (ps_countryCode (sd_profile b)) \<and>
      list_all (\<lambda>g. is_set (og_appId g) \<and> is_set (og_name g) \<and> is_set (og_playtimeMinutes g) \<and>
                    og_playtimeHours g \<noteq> None \<and> is_set (og_lastPlayed g))
        (ogs_games (sd_ownedGames b)) \<and>
      list_all (\<lambda>g. is_set (rg_appId g) \<and> is_set (rg_name g) \<and> is_set (rg_playtimeMinutes g) \<and>
                    rg_playtimeHours g \<noteq> None \<and> is_set (rg_playtime2WeeksMinutes g) \<and>
                    rg_playtime2WeeksHours g \<noteq> None)
        (rgs_games (sd_recentGames b)))"

definition wow_complete :: "wow_data \<Rightarrow> bool" where
  "wow_complete b =
     (wow_defaults_set b \<and>
      is_set (cp_name (wd_profile b)) \<and> is_set (cp_realm (wd_profile b)) \<and>
      is_set (cp_lastLogin (wd_profile b)) \<and>
      list_all (\<lambda>r. list_all is_set (br_affixes r)) (mp_bestRuns (wd_mythicPlus b)))"




section \<open>Concrete configurations, worlds and transports\<close>

text \<open>Inputs at which the operations are evaluated further down.\<close>

definition demo_env :: blizzard_env where
  "demo_env = \<lparr>wow = \<lparr>wow_clientId = Some ''id'', wow_clientSecret = Some ''secret'',
       wow_region = ''us'', wow_realm = Some ''area-52'', wow_characterName = Some ''Arthas''\<rparr>,
     apis_blizzard = ''https://us.api.blizzard.com'', btoa = (\<lambda>s. s)\<rparr>"

text \<open>The state of \<open>blizzard.js\<close> at module load, at clock reading 1000.\<close>

definition cold_world :: world where
  "cold_world = \<lparr>now = 1000, sent = [], accessToken = Null, tokenExpiry = Some 0\<rparr>"

definition token_ok_net :: "token_doc transport" where
  "token_ok_net rq t = (Resolves \<lparr>status = 200, statusText = ''OK'', body_text = [],
      json = Doc \<lparr>access_token = Val ''tok'', expires_in = Val 3600\<rparr>\<rparr>, 120)"

definition warm_world :: world where
  "warm_world = \<lparr>now = 1120, sent = [token_request demo_env], accessToken = Val ''tok'',
     tokenExpiry = Some 3301120\<rparr>"

definition token_401_net :: "token_doc transport" where
  "token_401_net rq t = (Resolves \<lparr>status = 401, statusText = ''Unauthorized'', body_text = [],
      json = NotJson ''Unexpected end of JSON input''\<rparr>, 80)"

text \<open>A transport on which every request fails to connect.\<close>

definition no_net :: "'b transport" where
  "no_net rq t = (Rejects (JsError ''TypeError'' ''Failed to fetch''), 0)"

definition steam_cfg :: steam_config where
  "steam_cfg = \<lparr>apis_steam = ''https://api.steampowered.com'',
     steam_steamId = Some ''76561198012345678'', steam_apiKey = Some ''KEY''\<rparr>"

text \<open>No API key, and the placeholder Steam ID.\<close>

definition steam_unset :: steam_config where
  "steam_unset = \<lparr>apis_steam = ''https://api.steampowered.com'',
     steam_steamId = Some ''76561198000000000'', steam_apiKey = None\<rparr>"

text \<open>A transport that answers every request with the given status and no JSON body.\<close>

definition status_net :: "nat \<Rightarrow> 'b transport" where
  "status_net code rq t = (Resolves \<lparr>status = code, statusText = [], body_text = [],
      json = NotJson ''Unexpected end of JSON input''\<rparr>, 50)"

text \<open>A transport that answers every request with status 200 and the given document.\<close>

definition doc_net :: "'b \<Rightarrow> 'b transport" where
  "doc_net d rq t = (Resolves \<lparr>status = 200, statusText = ''OK'', body_text = [], json = Doc d\<rparr>, 50)"

definition game_of :: "int \<Rightarrow> string \<Rightarrow> int \<Rightarrow> steam_game" where
  "game_of appid name minutes =
     \<lparr>sg_appid = Val appid, sg_name = Val name, sg_playtime_forever = Val minutes,
      sg_playtime_2weeks = Undefined, sg_img_icon_url = Undefined, sg_rtime_last_played = Undefined\<rparr>"

definition three_games :: owned_doc where
  "three_games =
     \<lparr>ow_response = Val \<lparr>ow_game_count = Val 3,
        ow_games = Val [game_of 10 ''A'' 100, game_of 20 ''B'' 500, game_of 30 ''C'' 300]\<rparr>\<rparr>"

definition poe_cfg :: poe_config where
  "poe_cfg = \<lparr>apis_poe = ''https://api.pathofexile.com'', poe2_accountName = Some ''Exile'',
     poe2_realm = Some ''pc''\<rparr>"

definition wallet_unset :: nft_config where
  "wallet_unset = \<lparr>wallet_address = None\<rparr>"


text \<open>A Blizzard configuration without client credentials.\<close>

definition unset_env :: blizzard_env where
  "unset_env = \<lparr>wow = \<lparr>wow_clientId = None, wow_clientSecret = None,
       wow_region = ''us'', wow_realm = Some ''area-52'', wow_characterName = Some ''Arthas''\<rparr>,
     apis_blizzard = ''https://us.api.blizzard.com'', btoa = (\<lambda>s. s)\<rparr>"

text \<open>A character profile document and a player list document without any member.\<close>

definition empty_profile :: profile_doc where
  "empty_profile =
     \<lparr>pd_name = Undefined, pd_realm = Undefined, pd_character_class = Undefined,
      pd_race = Undefined, pd_level = Undefined, pd_faction = Undefined,
      pd_equipped_item_level = Undefined, pd_average_item_level = Undefined,
      pd_guild = Undefined, pd_last_login_timestamp = Undefined\<rparr>"


text \<open>A player list whose only player has an id and a name and nothing else.\<close>

definition one_player :: players_doc where
  "one_player =
     \<lparr>pl_response = Val \<lparr>pr_players = Val
        [\<lparr>sp_steamid = Val ''76561198012345678'', sp_personaname = Val ''Me'',
          sp_avatarfull = Undefined, sp_profileurl = Undefined, sp_personastate = Undefined,
          sp_lastlogoff = Undefined, sp_timecreated = Undefined, sp_realname = Undefined,
          sp_loccountrycode = Undefined\<rparr>]\<rparr>\<rparr>"





text \<open>Three games of which the second has no \<open>playtime_forever\<close>.\<close>

definition gap_games :: owned_doc where
  "gap_games =
     \<lparr>ow_response = Val \<lparr>ow_game_count = Val 3,
        ow_games = Val [game_of 10 ''A'' 100,
                        (game_of 20 ''B'' 0)\<lparr>sg_playtime_forever := Undefined\<rparr>,
                        game_of 30 ''C'' 500]\<rparr>\<rparr>"

text \<open>A Blizzard configuration without client credentials and without a character name.\<close>

definition nameless_env :: blizzard_env where
  "nameless_env = \<lparr>wow = \<lparr>wow_clientId = None, wow_clientSecret = None,
       wow_region = ''us'', wow_realm = Some ''area-52'', wow_characterName = None\<rparr>,
     apis_blizzard = ''https://us.api.blizzard.com'', btoa = (\<lambda>s. s)\<rparr>"

text \<open>An API key together with the identity of the mock profile, which has nine zeros.\<close>

definition steam_mock_id :: steam_config where
  "steam_mock_id = \<lparr>apis_steam = ''https://api.steampowered.com'',
     steam_steamId = Some ''76561198000000000'', steam_apiKey = Some ''KEY''\<rparr>"

definition two_recent :: recent_doc where
  "two_recent =
     \<lparr>rc_response = Val \<lparr>rc_total_count = Val 2,
        rc_games = Val [game_of 10 ''A'' 100, game_of 30 ''C'' 500]\<rparr>\<rparr>"

section \<open>The token cache\<close>

lemma getAccessToken_hit:
  "cached_token_valid w \<Longrightarrow> getAccessToken env net w = (accessToken w, w)"
  by (simp add: getAccessToken_def)

lemma getAccessToken_sent_cold:
  assumes "config_set (wow_clientId (wow env))" "config_set (wow_clientSecret (wow env))"
    and "\<not> cached_token_valid w"
  shows "sent (snd (getAccessToken env net w)) = sent w @ [token_request env]"
    and "now (snd (getAccessToken env net w)) = now w + int (snd (net (token_request env) (now w)))"
  using assms
  by (auto simp: getAccessToken_def fetch_def split: prod.splits http_outcome.splits json_body.splits)

lemma getAccessToken_cold_cases:
  assumes "config_set (wow_clientId (wow env))" "config_set (wow_clientSecret (wow env))"
    and "\<not> cached_token_valid w0"
    and "getAccessToken env net w0 = (tok1, w1)"
  shows "(tok1 = Null \<and> accessToken w1 = accessToken w0 \<and> tokenExpiry w1 = tokenExpiry w0) \<or>
         (\<exists>r el d. net (token_request env) (now w0) = (Resolves r, el) \<and> ok r \<and> json r = Doc d \<and>
            tok1 = access_token d \<and> accessToken w1 = access_token d \<and>
            tokenExpiry w1 = expiry_of (now w1) (expires_in d))"
  using assms
  by (auto simp: getAccessToken_def fetch_def split: prod.splits http_outcome.splits json_body.splits if_splits)

text \<open>
  C2. With client credentials configured, let \<open>getAccessToken\<close> be called when no valid
  token is cached, and again at a later clock reading at which the token then cached is
  valid. The first call sends exactly one token request, the second sends none and returns
  the same token; the exchange succeeded, and when the server reports \<open>expires_in = e\<close>
  seconds the cached expiry is the clock reading at which the response arrived plus
  \<open>(e - 300) * 1000\<close> milliseconds.
\<close>

theorem getAccessToken_twice:
  assumes creds: "config_set (wow_clientId (wow env))" "config_set (wow_clientSecret (wow env))"
    and cold: "\<not> cached_token_valid w0"
    and first: "getAccessToken env net w0 = (tok1, w1)"
    and later: "now w1 \<le> t2"
    and valid: "cached_token_valid (w1\<lparr>now := t2\<rparr>)"
  shows "sent w1 = sent w0 @ [token_request env] \<and>
         getAccessToken env net (w1\<lparr>now := t2\<rparr>) = (tok1, w1\<lparr>now := t2\<rparr>) \<and>
         (\<exists>r el d. net (token_request env) (now w0) = (Resolves r, el) \<and> ok r \<and> json r = Doc d \<and>
            tok1 = access_token d \<and> now w1 = now w0 + int el \<and>
            (\<forall>e. expires_in d = Val e \<longrightarrow> tokenExpiry w1 = Some (now w1 + (e - 300) * 1000)))"
proof -
  have s: "sent w1 = sent w0 @ [token_request env]"
    and n: "now w1 = now w0 + int (snd (net (token_request env) (now w0)))"
    using getAccessToken_sent_cold[OF creds cold, of net] first by simp_all
  from getAccessToken_cold_cases[OF creds cold first]
  consider (fail) "tok1 = Null" "accessToken w1 = accessToken w0" "tokenExpiry w1 = tokenExpiry w0"
    | (succ) r el d where "net (token_request env) (now w0) = (Resolves r, el)" "ok r" "json r = Doc d"
        "tok1 = access_token d" "accessToken w1 = access_token d"
        "tokenExpiry w1 = expiry_of (now w1) (expires_in d)"
    by blast
  then show ?thesis
  proof cases
    case fail
    have "now w0 \<le> t2" using n later by simp
    with fail valid cold have False
      by (auto simp: cached_token_valid_def split: option.splits)
    then show ?thesis ..
  next
    case succ
    have hit: "getAccessToken env net (w1\<lparr>now := t2\<rparr>) = (tok1, w1\<lparr>now := t2\<rparr>)"
      using getAccessToken_hit[OF valid, of env net] succ by simp
    have "\<forall>e. expires_in d = Val e \<longrightarrow> tokenExpiry w1 = Some (now w1 + (e - 300) * 1000)"
      using succ by (simp add: expiry_of_def to_number_def)
    with s hit succ n show ?thesis by auto
  qed
qed

lemma demo_first: "getAccessToken demo_env token_ok_net cold_world = (Val ''tok'', warm_world)"
  by (simp add: getAccessToken_def demo_env_def cold_world_def token_ok_net_def cached_token_valid_def
     config_set_def of_config_def truthy_str_def fetch_def ok_def expiry_of_def to_number_def warm_world_def)

theorem getAccessToken_twice_witness:
  "config_set (wow_clientId (wow demo_env)) \<and> config_set (wow_clientSecret (wow demo_env)) \<and>
   \<not> cached_token_valid cold_world \<and>
   getAccessToken demo_env token_ok_net cold_world = (Val ''tok'', warm_world) \<and>
   now warm_world \<le> 2000 \<and> cached_token_valid (warm_world\<lparr>now := 2000\<rparr>) \<and>
   sent warm_world = sent cold_world @ [token_request demo_env] \<and>
   getAccessToken demo_env token_ok_net (warm_world\<lparr>now := 2000\<rparr>) = (Val ''tok'', warm_world\<lparr>now := 2000\<rparr>) \<and>
   tokenExpiry warm_world = Some (now warm_world + (3600 - 300) * 1000)"
proof -
  have h1: "config_set (wow_clientId (wow demo_env))"
    and h2: "config_set (wow_clientSecret (wow demo_env))"
    by (simp_all add: demo_env_def config_set_def of_config_def truthy_str_def)
  have h3: "\<not> cached_token_valid cold_world"
    by (simp add: cold_world_def cached_token_valid_def truthy_str_def)
  have h5: "now warm_world \<le> 2000" by (simp add: warm_world_def)
  have h6: "cached_token_valid (warm_world\<lparr>now := 2000\<rparr>)"
    by (simp add: warm_world_def cached_token_valid_def truthy_str_def)
  have e: "tokenExpiry warm_world = Some (now warm_world + (3600 - 300) * 1000)"
    by (simp add: warm_world_def)
  from getAccessToken_twice[OF h1 h2 h3 demo_first h5 h6] h1 h2 h3 demo_first h5 h6 e
  show ?thesis by blast
qed



section \<open>Steam: the order of the owned games\<close>

lemma set_insert_sorted: "set (insert_sorted cmp x ys) = insert x (set ys)"
  by (induction ys) auto

lemma mset_insert_sorted: "mset (insert_sorted cmp x ys) = add_mset x (mset ys)"
  by (induction ys) auto

lemma mset_js_sort: "mset (js_sort cmp xs) = mset xs"
  by (induction xs) (auto simp: js_sort_def mset_insert_sorted)

lemma set_js_sort: "set (js_sort cmp xs) = set xs"
  by (metis mset_js_sort set_mset_mset)

lemma by_playtime_numeric:
  assumes "to_number (og_playtimeMinutes a) = Some x" "to_number (og_playtimeMinutes b) = Some y"
  shows "sort_compare by_playtime a b = y - x" "playtime_not_less a b = (y \<le> x)"
  using assms by (simp_all add: sort_compare_def by_playtime_def js_minus_def playtime_not_less_def)

lemma sorted_insert_by_playtime:
  assumes num: "\<forall>g \<in> insert x (set ys). to_number (og_playtimeMinutes g) \<noteq> None"
    and srt: "sorted_wrt playtime_not_less ys"
  shows "sorted_wrt playtime_not_less (insert_sorted by_playtime x ys)"
  using assms
proof (induction ys)
  case Nil
  then show ?case by simp
next
  case (Cons y ys)
  from Cons.prems obtain kx ky where kx: "to_number (og_playtimeMinutes x) = Some kx"
    and ky: "to_number (og_playtimeMinutes y) = Some ky"
    by auto
  show ?case
  proof (cases "sort_compare by_playtime x y \<le> 0")
    case True
    then have xy: "playtime_not_less x y" using by_playtime_numeric[OF kx ky] by simp
    have "playtime_not_less x z" if "z \<in> set ys" for z
    proof -
      from Cons.prems that obtain kz where kz: "to_number (og_playtimeMinutes z) = Some kz"
        by auto
      from Cons.prems that have "playtime_not_less y z" by simp
      then have "kz \<le> ky" using by_playtime_numeric[OF ky kz] by simp
      moreover have "ky \<le> kx" using xy by_playtime_numeric[OF kx ky] by simp
      ultimately show ?thesis using by_playtime_numeric[OF kx kz] by simp
    qed
    with True xy Cons.prems show ?thesis by simp
  next
    case False
    then have yx: "playtime_not_less y x" using by_playtime_numeric[OF kx ky] by_playtime_numeric[OF ky kx] by simp
    have "sorted_wrt playtime_not_less (insert_sorted by_playtime x ys)"
      using Cons by simp
    with False yx Cons.prems show ?thesis by (auto simp: set_insert_sorted)
  qed
qed

lemma sorted_js_sort_by_playtime:
  "\<forall>g \<in> set xs. to_number (og_playtimeMinutes g) \<noteq> None \<Longrightarrow>
   sorted_wrt playtime_not_less (js_sort by_playtime xs)"
proof (induction xs)
  case Nil
  then show ?case by (simp add: js_sort_def)
next
  case (Cons x xs)
  have "sorted_wrt playtime_not_less (insert_sorted by_playtime x (js_sort by_playtime xs))"
    using Cons by (intro sorted_insert_by_playtime) (auto simp: set_js_sort)
  then show ?case by (simp add: js_sort_def)
qed

lemma steam_get_doc:
  "net (get_request url []) (now w) = (Resolves r, el) \<Longrightarrow> ok r \<Longrightarrow> json r = Doc d \<Longrightarrow>
   steam_get net url w = (Inr d, w\<lparr>now := now w + int el, sent := sent w @ [get_request url []]\<rparr>)"
  by (simp add: steam_get_def fetch_def)

text \<open>
  C10 (amended). On the live path (valid credentials, a response with an ok status and a
  JSON document) \<open>fetchOwnedGames\<close> returns the normalized upstream games, each exactly
  once, in non-increasing order of \<open>playtimeMinutes\<close>, for every upstream list in which
  each game has a \<open>playtime_forever\<close>. Where a game has none, the comparator yields
  \<open>NaN\<close> and the result need not be ordered.
\<close>

theorem fetchOwnedGames_sorted:
  assumes creds: "hasValidCredentials c"
    and resp: "net (get_request (owned_games_url c) []) (now w) = (Resolves r, el)"
    and live: "ok r" "json r = Doc d"
    and num: "\<forall>g \<in> set (or_empty (opt_chain (ow_response d) ow_games)).
                to_number (sg_playtime_forever g) \<noteq> None"
  shows "\<exists>res w'. fetchOwnedGames c net w = (Inr res, w') \<and>
           sorted_wrt playtime_not_less (ogs_games res) \<and>
           mset (ogs_games res) =
             mset (map normalize_owned (or_empty (opt_chain (ow_response d) ow_games)))"
proof -
  let ?games = "or_empty (opt_chain (ow_response d) ow_games)"
  have "\<forall>g \<in> set (map normalize_owned ?games). to_number (og_playtimeMinutes g) \<noteq> None"
    using num by (auto simp: normalize_owned_def)
  then have "sorted_wrt playtime_not_less (js_sort by_playtime (map normalize_owned ?games))"
    by (rule sorted_js_sort_by_playtime)
  then show ?thesis
    using creds by (simp add: fetchOwnedGames_def steam_get_doc[where net = net, OF resp live] Let_def mset_js_sort)
qed

lemma steam_cfg_valid: "hasValidCredentials steam_cfg"
  by (simp add: hasValidCredentials_def steam_cfg_def config_set_def of_config_def truthy_str_def
      to_string_def)

theorem fetchOwnedGames_sorted_witness:
  "hasValidCredentials steam_cfg \<and>
   list_all (\<lambda>g. to_number (sg_playtime_forever g) \<noteq> None)
     (or_empty (opt_chain (ow_response three_games) ow_games)) \<and>
   (\<exists>res w'. fetchOwnedGames steam_cfg (doc_net three_games) cold_world = (Inr res, w') \<and>
      sorted_wrt playtime_not_less (ogs_games res) \<and>
      mset (ogs_games res) =
        mset (map normalize_owned (or_empty (opt_chain (ow_response three_games) ow_games))))"
proof -
  have h2: "doc_net three_games (get_request (owned_games_url steam_cfg) []) (now cold_world) =
      (Resolves \<lparr>status = 200, statusText = ''OK'', body_text = [], json = Doc three_games\<rparr>, 50)"
    by (simp add: doc_net_def)
  have h3: "ok \<lparr>status = 200, statusText = ''OK'', body_text = [], json = Doc three_games\<rparr>"
    by (simp add: ok_def)
  have h4: "json \<lparr>status = 200, statusText = ''OK'', body_text = [], json = Doc three_games\<rparr> =
      Doc three_games"
    by simp
  have h5: "\<forall>g \<in> set (or_empty (opt_chain (ow_response three_games) ow_games)).
      to_number (sg_playtime_forever g) \<noteq> None"
    by (simp add: three_games_def or_empty_def opt_chain_def game_of_def to_number_def)
  from fetchOwnedGames_sorted[where net = "doc_net three_games" and c = steam_cfg and w = cold_world,
      OF steam_cfg_valid h2 h3 h4 h5] steam_cfg_valid h5
  show ?thesis by (simp add: list_all_iff)
qed

lemma owned_games_order_example:
  "map og_playtimeMinutes
     (js_sort by_playtime
        (map normalize_owned [game_of 10 ''A'' 100, game_of 20 ''B'' 500, game_of 30 ''C'' 300])) =
   [Val 500, Val 300, Val 100]"
  by (simp add: js_sort_def sort_compare_def by_playtime_def js_minus_def to_number_def
      normalize_owned_def game_of_def)

text \<open>
  Of three games with playtimes 100, none and 500, none is moved: the result has the
  game of 100 minutes before the game of 500 minutes.
\<close>

theorem fetchOwnedGames_unsorted_without_playtime:
  "\<not> isl (fst (fetchOwnedGames steam_cfg (doc_net gap_games) cold_world)) \<and>
   map og_playtimeMinutes
     (ogs_games (projr (fst (fetchOwnedGames steam_cfg (doc_net gap_games) cold_world)))) =
     [Val 100, Undefined, Val 500] \<and>
   \<not> sorted_wrt playtime_not_less
     (ogs_games (projr (fst (fetchOwnedGames steam_cfg (doc_net gap_games) cold_world))))"
proof -
  let ?r = "\<lparr>status = 200, statusText = ''OK'', body_text = [], json = Doc gap_games\<rparr>"
  have q: "doc_net gap_games (get_request (owned_games_url steam_cfg) []) (now cold_world) =
      (Resolves ?r, 50)"
    by (simp add: doc_net_def)
  have o: "ok ?r" "json ?r = Doc gap_games"
    by (simp_all add: ok_def)
  have g: "or_empty (opt_chain (ow_response gap_games) ow_games) =
      [game_of 10 ''A'' 100, (game_of 20 ''B'' 0)\<lparr>sg_playtime_forever := Undefined\<rparr>,
       game_of 30 ''C'' 500]"
    by (simp add: gap_games_def or_empty_def opt_chain_def)
  have s: "js_sort by_playtime
      (map normalize_owned
        [game_of 10 ''A'' 100, (game_of 20 ''B'' 0)\<lparr>sg_playtime_forever := Undefined\<rparr>,
         game_of 30 ''C'' 500]) =
      map normalize_owned
        [game_of 10 ''A'' 100, (game_of 20 ''B'' 0)\<lparr>sg_playtime_forever := Undefined\<rparr>,
         game_of 30 ''C'' 500]"
    by (simp add: js_sort_def sort_compare_def by_playtime_def js_minus_def to_number_def
        normalize_owned_def game_of_def)
  have f: "fst (fetchOwnedGames steam_cfg (doc_net gap_games) cold_world) =
      Inr \<lparr>ogs_totalCount = or_number (opt_chain (ow_response gap_games) ow_game_count) (Val 3),
           ogs_games = map normalize_owned
             [game_of 10 ''A'' 100, (game_of 20 ''B'' 0)\<lparr>sg_playtime_forever := Undefined\<rparr>,
              game_of 30 ''C'' 500]\<rparr>"
    using steam_cfg_valid
    by (simp add: fetchOwnedGames_def steam_get_doc[where net = "doc_net gap_games", OF q o] g s[simplified] Let_def)
  show ?thesis
    by (simp add: f) (simp add: normalize_owned_def game_of_def playtime_not_less_def to_number_def)
qed

section \<open>Failure paths of the adapters\<close>

lemma str_includes_set: "str_includes s sub \<Longrightarrow> set sub \<subseteq> set s"
proof (induction s)
  case Nil
  then show ?case by simp
next
  case (Cons c cs)
  then show ?case using set_mono_prefix[of sub "c # cs"] by auto
qed

lemma set_show_nat: "set (show_nat n) \<subseteq> set ''0123456789''"
proof (induction n rule: show_nat.induct)
  case (1 n)
  have d: "digit_char k \<in> set ''0123456789''" for k
    unfolding digit_char_def by (rule nth_mem) simp
  show ?case
  proof (cases "n < 10")
    case True
    then show ?thesis using d[of n] by (subst show_nat.simps) simp
  next
    case False
    then show ?thesis using 1 d[of "n mod 10"] by (subst show_nat.simps) simp
  qed
qed

lemma steam_status_error_not_cors:
  "\<not> cors_like (JsError ''Error'' (''Steam API error: '' @ show_nat n))"
proof -
  have c: "CHR ''C'' \<notin> set (''Steam API error: '' @ show_nat n)"
    and e: "CHR ''N'' \<notin> set (''Steam API error: '' @ show_nat n)"
    using set_show_nat[of n] by auto
  have "\<not> str_includes (''Steam API error: '' @ show_nat n) ''CORS''"
    using str_includes_set[of "''Steam API error: '' @ show_nat n" "''CORS''"] c by auto
  moreover have "\<not> str_includes (''Steam API error: '' @ show_nat n) ''NetworkError''"
    using str_includes_set[of "''Steam API error: '' @ show_nat n" "''NetworkError''"] e by auto
  ultimately show ?thesis by (simp add: cors_like_def)
qed

lemma steam_get_rejected:
  "net (get_request url []) (now w) = (Rejects e, el) \<Longrightarrow>
   steam_get net url w = (Inl e, w\<lparr>now := now w + int el, sent := sent w @ [get_request url []]\<rparr>)"
  by (simp add: steam_get_def fetch_def)

lemma steam_get_status:
  "net (get_request url []) (now w) = (Resolves r, el) \<Longrightarrow> \<not> ok r \<Longrightarrow>
   steam_get net url w =
     (Inl (JsError ''Error'' (''Steam API error: '' @ show_nat (status r))),
      w\<lparr>now := now w + int el, sent := sent w @ [get_request url []]\<rparr>)"
  by (simp add: steam_get_def fetch_def)

lemma denied_cases:
  "denied p \<Longrightarrow> \<exists>r el. p = (Resolves r, el) \<and> \<not> ok r \<and> (status r = 401 \<or> status r = 403)"
  by (cases p) (auto simp: denied_def ok_def split: http_outcome.splits)

lemma unreachable_cases:
  "unreachable p \<Longrightarrow> \<exists>e el. p = (Rejects e, el) \<and> err_name e = ''TypeError''"
  by (cases p) (auto simp: unreachable_def split: http_outcome.splits)

lemma type_error_cors_like: "err_name e = ''TypeError'' \<Longrightarrow> cors_like e"
  by (simp add: cors_like_def)

lemma steam_unconfigured:
  assumes "\<not> hasValidCredentials c"
  shows "fetchPlayerSummary c pnet w = (Inr (getMockPlayerSummary (now w)), w)"
    and "fetchSteamLevel c lnet w = (Inr getMockSteamLevel, w)"
    and "fetchOwnedGames c onet w = (Inr (getMockOwnedGames (now w)), w)"
    and "fetchRecentGames c rnet cnt w = (Inr getMockRecentGames, w)"
  using assms
  by (simp_all add: fetchPlayerSummary_def fetchSteamLevel_def fetchOwnedGames_def fetchRecentGames_def)

lemma steam_unreachable:
  assumes "hasValidCredentials c"
  shows "unreachable (pnet (get_request (player_summary_url c) []) (now w)) \<Longrightarrow>
           returns_mock (fetchPlayerSummary c pnet w) getMockPlayerSummary"
    and "unreachable (lnet (get_request (steam_level_url c) []) (now w)) \<Longrightarrow>
           returns_mock (fetchSteamLevel c lnet w) (\<lambda>t. getMockSteamLevel)"
    and "unreachable (onet (get_request (owned_games_url c) []) (now w)) \<Longrightarrow>
           returns_mock (fetchOwnedGames c onet w) getMockOwnedGames"
    and "unreachable (rnet (get_request (recent_games_url c cnt) []) (now w)) \<Longrightarrow>
           returns_mock (fetchRecentGames c rnet cnt w) (\<lambda>t. getMockRecentGames)"
  using assms
  by (auto dest!: unreachable_cases
      simp: fetchPlayerSummary_def fetchSteamLevel_def fetchOwnedGames_def fetchRecentGames_def
        steam_get_rejected type_error_cors_like returns_mock_def)

lemma steam_denied:
  assumes "hasValidCredentials c"
  shows "denied (pnet (get_request (player_summary_url c) []) (now w)) \<Longrightarrow>
           rejects (fetchPlayerSummary c pnet w)"
    and "denied (lnet (get_request (steam_level_url c) []) (now w)) \<Longrightarrow>
           returns_mock (fetchSteamLevel c lnet w) (\<lambda>t. getMockSteamLevel)"
    and "denied (onet (get_request (owned_games_url c) []) (now w)) \<Longrightarrow>
           rejects (fetchOwnedGames c onet w)"
    and "denied (rnet (get_request (recent_games_url c cnt) []) (now w)) \<Longrightarrow>
           rejects (fetchRecentGames c rnet cnt w)"
  using assms
  by (auto dest!: denied_cases
      simp: fetchPlayerSummary_def fetchSteamLevel_def fetchOwnedGames_def fetchRecentGames_def
        steam_get_status steam_status_error_not_cors[simplified] returns_mock_def rejects_def)


lemma getAccessToken_unconfigured:
  "\<not> cached_token_valid w \<Longrightarrow>
   \<not> config_set (wow_clientId (wow env)) \<or> \<not> config_set (wow_clientSecret (wow env)) \<Longrightarrow>
   getAccessToken env tnet w = (Null, w)"
  by (auto simp: getAccessToken_def)

lemma getAccessToken_exchange_fails:
  assumes "\<not> cached_token_valid w"
    and "denied (tnet (token_request env) (now w)) \<or> unreachable (tnet (token_request env) (now w))"
  shows "fst (getAccessToken env tnet w) = Null"
  using assms
  by (auto dest!: denied_cases unreachable_cases simp: getAccessToken_def fetch_def)

lemma blizzardFetch_no_token:
  "fst (getAccessToken env tnet w) = Null \<Longrightarrow> fst (blizzardFetch env tnet net endpoint w) = Null"
  by (cases "getAccessToken env tnet w") (simp add: blizzardFetch_def truthy_str_def)

lemma blizzardFetch_request_fails:
  assumes "truthy_str (fst (getAccessToken env tnet w))"
    and "denied (net (api_request env endpoint (fst (getAccessToken env tnet w)))
                   (now (snd (getAccessToken env tnet w)))) \<or>
         unreachable (net (api_request env endpoint (fst (getAccessToken env tnet w)))
                   (now (snd (getAccessToken env tnet w))))"
  shows "fst (blizzardFetch env tnet net endpoint w) = Null"
  using assms
  by (cases "getAccessToken env tnet w")
     (auto dest!: denied_cases unreachable_cases simp: blizzardFetch_def fetch_def)

lemma blizzard_fails_null:
  "blizzard_fails env tnet net endpoint w \<Longrightarrow> fst (blizzardFetch env tnet net endpoint w) = Null"
  unfolding blizzard_fails_def Let_def
  using getAccessToken_unconfigured[of w env tnet] getAccessToken_exchange_fails[of w tnet env]
    blizzardFetch_no_token[of env tnet w net endpoint]
    blizzardFetch_request_fails[of env tnet w net endpoint]
  by (metis fst_conv)

lemma wow_fallback:
  assumes "wow_characterName (wow env) = Some n"
  shows "blizzard_fails env tnet pnet (endpoint_of (character_path (wow env))) w \<Longrightarrow>
           returns_mock (fetchCharacterProfile env tnet pnet w) (getMockCharacterProfile (wow env))"
    and "blizzard_fails env tnet mnet (endpoint_of (mythic_path (wow env))) w \<Longrightarrow>
           returns_mock (fetchMythicPlusProfile env tnet mnet w) (\<lambda>t. getMockMythicPlusProfile)"
    and "blizzard_fails env tnet rnet (endpoint_of (raids_path (wow env))) w \<Longrightarrow>
           returns_mock (fetchRaidProgress env tnet rnet w) (\<lambda>t. getMockRaidProgress)"
  using assms
  by (auto dest!: blizzard_fails_null
      simp: fetchCharacterProfile_def fetchMythicPlusProfile_def fetchRaidProgress_def
        character_path_def mythic_path_def raids_path_def endpoint_of_def returns_mock_def
      split: prod.splits js.splits)

lemma wow_never_rejects:
  assumes "wow_characterName (wow env) = Some n"
  shows "\<not> rejects (fetchCharacterProfile env tnet pnet w)"
    and "\<not> rejects (fetchMythicPlusProfile env tnet mnet w)"
    and "\<not> rejects (fetchRaidProgress env tnet rnet w)"
  using assms
  by (auto simp: fetchCharacterProfile_def fetchMythicPlusProfile_def fetchRaidProgress_def
        character_path_def mythic_path_def raids_path_def rejects_def
      split: prod.splits js.splits)

lemma poe_fallback:
  "denied (cnet (poe_request c ''/character'') (now w)) \<or>
   unreachable (cnet (poe_request c ''/character'') (now w)) \<Longrightarrow>
   fst (fetchCharacters c cnet w) = getMockCharacters (now (snd (fetchCharacters c cnet w)))"
  "denied (lnet (poe_request c ''/league'') (now w)) \<or>
   unreachable (lnet (poe_request c ''/league'') (now w)) \<Longrightarrow>
   fst (fetchLeagues c lnet w) = getMockLeagues"
  "denied (anet (poe_request c ''/profile'') (now w)) \<or>
   unreachable (anet (poe_request c ''/profile'') (now w)) \<Longrightarrow>
   fst (fetchAccountProfile c anet w) = mock_account_profile c"
  by (auto dest!: denied_cases unreachable_cases
      simp: fetchCharacters_def fetchLeagues_def fetchAccountProfile_def fetch_def)

lemma nft_rejects:
  "wallet_unconfigured c wa \<Longrightarrow>
   fetchNFTsForWallet c net wa cont limit w =
     (Inl (JsError ''Error''
        ''Wallet address is not configured. Please add your wallet address to config.js''), w)"
  "\<not> wallet_unconfigured c wa \<Longrightarrow>
   denied (net (nft_request (to_string (or_str wa (of_config (wallet_address c)))) cont limit) (now w)) \<or>
   unreachable (net (nft_request (to_string (or_str wa (of_config (wallet_address c)))) cont limit) (now w)) \<Longrightarrow>
   rejects (fetchNFTsForWallet c net wa cont limit w)"
  by (auto dest!: denied_cases unreachable_cases
      simp: fetchNFTsForWallet_def wallet_unconfigured_def fetch_def rejects_def Let_def)

section \<open>Expected failures, adapter by adapter\<close>

text \<open>
  With valid credentials and a response of status 401, \<open>fetchPlayerSummary\<close> rejects:
  the error is neither a \<open>TypeError\<close> nor mentions CORS, so the catch block rethrows it.
\<close>

theorem fetchPlayerSummary_rethrows_401:
  "fetchPlayerSummary steam_cfg (status_net 401) cold_world =
     (Inl (JsError ''Error'' ''Steam API error: 401''),
      cold_world\<lparr>now := 1050, sent := [get_request (player_summary_url steam_cfg) []]\<rparr>)"
proof -
  have s: "show_nat 401 = ''401''"
    by (simp add: show_nat.simps digit_char_def)
  have h: "status_net 401 (get_request (player_summary_url steam_cfg) []) (now cold_world) =
      (Resolves \<lparr>status = 401, statusText = [], body_text = [],
         json = (NotJson ''Unexpected end of JSON input'' :: players_doc json_body)\<rparr>, 50)"
    by (simp add: status_net_def)
  have n: "\<not> cors_like (JsError ''Error'' ''Steam API error: 401'')"
    using steam_status_error_not_cors[of 401] by (simp add: s)
  have g: "steam_get (status_net 401 :: players_doc transport) (player_summary_url steam_cfg) cold_world =
      (Inl (JsError ''Error'' ''Steam API error: 401''),
       cold_world\<lparr>now := 1050, sent := [get_request (player_summary_url steam_cfg) []]\<rparr>)"
    using steam_get_status[where net = "status_net 401", OF h] by (simp add: ok_def s cold_world_def)
  show ?thesis
    using steam_cfg_valid n by (simp add: fetchPlayerSummary_def g)
qed

text \<open>
  C1 (amended). For the expected failure modes (missing credentials, HTTP 401 or 403, a
  network failure):
  \<^item> \<open>fetchSteamLevel\<close>, the three Blizzard character fetches (with a character name
    configured) and the three Path of Exile fetches return their fallback data in each
    of them and never reject; the Path of Exile results carry \<open>isMockData = true\<close>;
  \<^item> \<open>fetchPlayerSummary\<close>, \<open>fetchOwnedGames\<close> and \<open>fetchRecentGames\<close> return their
    mock data on missing credentials and on a network failure, and reject on HTTP 401 or
    403;
  \<^item> \<open>fetchNFTsForWallet\<close> has no fallback data and rejects in each of them.
\<close>

theorem expected_failures_by_adapter:
  "(\<not> hasValidCredentials sc \<longrightarrow>
      returns_mock (fetchPlayerSummary sc pnet w) getMockPlayerSummary \<and>
      returns_mock (fetchSteamLevel sc lnet w) (\<lambda>t. getMockSteamLevel) \<and>
      returns_mock (fetchOwnedGames sc onet w) getMockOwnedGames \<and>
      returns_mock (fetchRecentGames sc rnet cnt w) (\<lambda>t. getMockRecentGames)) \<and>
   (hasValidCredentials sc \<longrightarrow>
      (unreachable (pnet (get_request (player_summary_url sc) []) (now w)) \<longrightarrow>
         returns_mock (fetchPlayerSummary sc pnet w) getMockPlayerSummary) \<and>
      (denied (pnet (get_request (player_summary_url sc) []) (now w)) \<longrightarrow>
         rejects (fetchPlayerSummary sc pnet w)) \<and>
      (unreachable (lnet (get_request (steam_level_url sc) []) (now w)) \<or>
       denied (lnet (get_request (steam_level_url sc) []) (now w)) \<longrightarrow>
         returns_mock (fetchSteamLevel sc lnet w) (\<lambda>t. getMockSteamLevel)) \<and>
      (unreachable (onet (get_request (owned_games_url sc) []) (now w)) \<longrightarrow>
         returns_mock (fetchOwnedGames sc onet w) getMockOwnedGames) \<and>
      (denied (onet (get_request (owned_games_url sc) []) (now w)) \<longrightarrow>
         rejects (fetchOwnedGames sc onet w)) \<and>
      (unreachable (rnet (get_request (recent_games_url sc cnt) []) (now w)) \<longrightarrow>
         returns_mock (fetchRecentGames sc rnet cnt w) (\<lambda>t. getMockRecentGames)) \<and>
      (denied (rnet (get_request (recent_games_url sc cnt) []) (now w)) \<longrightarrow>
         rejects (fetchRecentGames sc rnet cnt w))) \<and>
   (wow_characterName (wow env) = Some n \<longrightarrow>
      \<not> rejects (fetchCharacterProfile env tnet cnet w) \<and>
      \<not> rejects (fetchMythicPlusProfile env tnet mnet w) \<and>
      \<not> rejects (fetchRaidProgress env tnet rdnet w) \<and>
      (blizzard_fails env tnet cnet (endpoint_of (character_path (wow env))) w \<longrightarrow>
         returns_mock (fetchCharacterProfile env tnet cnet w) (getMockCharacterProfile (wow env))) \<and>
      (blizzard_fails env tnet mnet (endpoint_of (mythic_path (wow env))) w \<longrightarrow>
         returns_mock (fetchMythicPlusProfile env tnet mnet w) (\<lambda>t. getMockMythicPlusProfile)) \<and>
      (blizzard_fails env tnet rdnet (endpoint_of (raids_path (wow env))) w \<longrightarrow>
         returns_mock (fetchRaidProgress env tnet rdnet w) (\<lambda>t. getMockRaidProgress))) \<and>
   (denied (pcnet (poe_request pc ''/character'') (now w)) \<or>
    unreachable (pcnet (poe_request pc ''/character'') (now w)) \<longrightarrow>
      fst (fetchCharacters pc pcnet w) = getMockCharacters (now (snd (fetchCharacters pc pcnet w))) \<and>
      chd_isMockData (fst (fetchCharacters pc pcnet w))) \<and>
   (denied (plnet (poe_request pc ''/league'') (now w)) \<or>
    unreachable (plnet (poe_request pc ''/league'') (now w)) \<longrightarrow>
      fst (fetchLeagues pc plnet w) = getMockLeagues \<and> lgd_isMockData (fst (fetchLeagues pc plnet w))) \<and>
   (denied (panet (poe_request pc ''/profile'') (now w)) \<or>
    unreachable (panet (poe_request pc ''/profile'') (now w)) \<longrightarrow>
      fst (fetchAccountProfile pc panet w) = mock_account_profile pc \<and>
      ap_isMockData (fst (fetchAccountProfile pc panet w))) \<and>
   (wallet_unconfigured nc wa \<or>
    denied (nnet (nft_request (to_string (or_str wa (of_config (wallet_address nc)))) cont limit) (now w)) \<or>
    unreachable (nnet (nft_request (to_string (or_str wa (of_config (wallet_address nc)))) cont limit) (now w)) \<longrightarrow>
      rejects (fetchNFTsForWallet nc nnet wa cont limit w))"
proof -
  have steam0: "\<not> hasValidCredentials sc \<longrightarrow>
      returns_mock (fetchPlayerSummary sc pnet w) getMockPlayerSummary \<and>
      returns_mock (fetchSteamLevel sc lnet w) (\<lambda>t. getMockSteamLevel) \<and>
      returns_mock (fetchOwnedGames sc onet w) getMockOwnedGames \<and>
      returns_mock (fetchRecentGames sc rnet cnt w) (\<lambda>t. getMockRecentGames)"
    by (simp add: steam_unconfigured returns_mock_def)
  have steam1: "hasValidCredentials sc \<longrightarrow>
      (unreachable (pnet (get_request (player_summary_url sc) []) (now w)) \<longrightarrow>
         returns_mock (fetchPlayerSummary sc pnet w) getMockPlayerSummary) \<and>
      (denied (pnet (get_request (player_summary_url sc) []) (now w)) \<longrightarrow>
         rejects (fetchPlayerSummary sc pnet w)) \<and>
      (unreachable (lnet (get_request (steam_level_url sc) []) (now w)) \<or>
       denied (lnet (get_request (steam_level_url sc) []) (now w)) \<longrightarrow>
         returns_mock (fetchSteamLevel sc lnet w) (\<lambda>t. getMockSteamLevel)) \<and>
      (unreachable (onet (get_request (owned_games_url sc) []) (now w)) \<longrightarrow>
         returns_mock (fetchOwnedGames sc onet w) getMockOwnedGames) \<and>
      (denied (onet (get_request (owned_games_url sc) []) (now w)) \<longrightarrow>
         rejects (fetchOwnedGames sc onet w)) \<and>
      (unreachable (rnet (get_request (recent_games_url sc cnt) []) (now w)) \<longrightarrow>
         returns_mock (fetchRecentGames sc rnet cnt w) (\<lambda>t. getMockRecentGames)) \<and>
      (denied (rnet (get_request (recent_games_url sc cnt) []) (now w)) \<longrightarrow>
         rejects (fetchRecentGames sc rnet cnt w))"
    using steam_unreachable(1)[where c = sc and pnet = pnet and w = w]
      steam_unreachable(2)[where c = sc and lnet = lnet and w = w]
      steam_unreachable(3)[where c = sc and onet = onet and w = w]
      steam_unreachable(4)[where c = sc and rnet = rnet and w = w and cnt = cnt]
      steam_denied(1)[where c = sc and pnet = pnet and w = w]
      steam_denied(2)[where c = sc and lnet = lnet and w = w]
      steam_denied(3)[where c = sc and onet = onet and w = w]
      steam_denied(4)[where c = sc and rnet = rnet and w = w and cnt = cnt]
    by blast
  have wow1: "wow_characterName (wow env) = Some n \<longrightarrow>
      \<not> rejects (fetchCharacterProfile env tnet cnet w) \<and>
      \<not> rejects (fetchMythicPlusProfile env tnet mnet w) \<and>
      \<not> rejects (fetchRaidProgress env tnet rdnet w) \<and>
      (blizzard_fails env tnet cnet (endpoint_of (character_path (wow env))) w \<longrightarrow>
         returns_mock (fetchCharacterProfile env tnet cnet w) (getMockCharacterProfile (wow env))) \<and>
      (blizzard_fails env tnet mnet (endpoint_of (mythic_path (wow env))) w \<longrightarrow>
         returns_mock (fetchMythicPlusProfile env tnet mnet w) (\<lambda>t. getMockMythicPlusProfile)) \<and>
      (blizzard_fails env tnet rdnet (endpoint_of (raids_path (wow env))) w \<longrightarrow>
         returns_mock (fetchRaidProgress env tnet rdnet w) (\<lambda>t. getMockRaidProgress))"
    using wow_never_rejects(1)[where env = env and tnet = tnet and pnet = cnet and w = w]
      wow_never_rejects(2)[where env = env and tnet = tnet and mnet = mnet and w = w]
      wow_never_rejects(3)[where env = env and tnet = tnet and rnet = rdnet and w = w]
      wow_fallback(1)[where env = env and tnet = tnet and pnet = cnet and w = w]
      wow_fallback(2)[where env = env and tnet = tnet and mnet = mnet and w = w]
      wow_fallback(3)[where env = env and tnet = tnet and rnet = rdnet and w = w]
    by blast
  have poe1: "denied (pcnet (poe_request pc ''/character'') (now w)) \<or>
      unreachable (pcnet (poe_request pc ''/character'') (now w)) \<longrightarrow>
      fst (fetchCharacters pc pcnet w) = getMockCharacters (now (snd (fetchCharacters pc pcnet w))) \<and>
      chd_isMockData (fst (fetchCharacters pc pcnet w))"
    using poe_fallback(1)[where cnet = pcnet and c = pc and w = w] by (auto simp: getMockCharacters_def)
  have poe2: "denied (plnet (poe_request pc ''/league'') (now w)) \<or>
      unreachable (plnet (poe_request pc ''/league'') (now w)) \<longrightarrow>
      fst (fetchLeagues pc plnet w) = getMockLeagues \<and> lgd_isMockData (fst (fetchLeagues pc plnet w))"
    using poe_fallback(2)[where lnet = plnet and c = pc and w = w] by (auto simp: getMockLeagues_def)
  have poe3: "denied (panet (poe_request pc ''/profile'') (now w)) \<or>
      unreachable (panet (poe_request pc ''/profile'') (now w)) \<longrightarrow>
      fst (fetchAccountProfile pc panet w) = mock_account_profile pc \<and>
      ap_isMockData (fst (fetchAccountProfile pc panet w))"
    using poe_fallback(3)[where anet = panet and c = pc and w = w] by (auto simp: mock_account_profile_def)
  have nft1: "wallet_unconfigured nc wa \<or>
      denied (nnet (nft_request (to_string (or_str wa (of_config (wallet_address nc)))) cont limit) (now w)) \<or>
      unreachable (nnet (nft_request (to_string (or_str wa (of_config (wallet_address nc)))) cont limit) (now w)) \<longrightarrow>
      rejects (fetchNFTsForWallet nc nnet wa cont limit w)"
    using nft_rejects(1)[where c = nc and wa = wa and net = nnet and cont = cont and limit = limit and w = w]
      nft_rejects(2)[where c = nc and wa = wa and net = nnet and cont = cont and limit = limit and w = w]
    by (cases "wallet_unconfigured nc wa") (auto simp: rejects_def)
  from steam0 steam1 wow1 poe1 poe2 poe3 nft1 show ?thesis by (intro conjI)
qed


lemma steam_unset_invalid: "\<not> hasValidCredentials steam_unset"
  by (simp add: hasValidCredentials_def steam_unset_def config_set_def of_config_def truthy_str_def)

lemma status_net_denied: "denied (status_net 401 rq t)" "denied (status_net 403 rq t)"
  by (simp_all add: denied_def status_net_def)

lemma no_net_unreachable: "unreachable (no_net rq t)"
  by (simp add: unreachable_def no_net_def)

lemma token_401_blizzard_fails: "blizzard_fails demo_env token_401_net net endpoint cold_world"
  by (simp add: blizzard_fails_def Let_def cached_token_valid_def cold_world_def truthy_str_def
      denied_def token_401_net_def)

theorem expected_failures_by_adapter_witness:
  "returns_mock (fetchPlayerSummary steam_unset (no_net :: players_doc transport) cold_world)
     getMockPlayerSummary \<and>
   rejects (fetchPlayerSummary steam_cfg (status_net 401) cold_world) \<and>
   returns_mock (fetchOwnedGames steam_cfg no_net cold_world) getMockOwnedGames \<and>
   returns_mock (fetchCharacterProfile demo_env token_401_net no_net cold_world)
     (getMockCharacterProfile (wow demo_env)) \<and>
   fst (fetchCharacters poe_cfg (status_net 403) cold_world) =
     getMockCharacters (now (snd (fetchCharacters poe_cfg (status_net 403) cold_world))) \<and>
   rejects (fetchNFTsForWallet wallet_unset no_net Null Null 50 cold_world)"
proof -
  have ch: "wow_characterName (wow demo_env) = Some ''Arthas''"
    by (simp add: demo_env_def)
  have wu: "wallet_unconfigured wallet_unset Null"
    by (simp add: wallet_unconfigured_def wallet_unset_def or_str_def truthy_str_def of_config_def)
  note unset = expected_failures_by_adapter[where sc = steam_unset and pnet = no_net and lnet = no_net
      and onet = no_net and rnet = no_net and cnt = 10 and env = demo_env and n = "''Arthas''"
      and tnet = token_401_net and cnet = no_net and mnet = no_net and rdnet = no_net
      and pc = poe_cfg and pcnet = "status_net 403" and plnet = no_net and panet = no_net
      and nc = wallet_unset and wa = Null and nnet = no_net and cont = Null and limit = 50
      and w = cold_world]
  note valid = expected_failures_by_adapter[where sc = steam_cfg and pnet = "status_net 401"
      and lnet = no_net and onet = no_net and rnet = no_net and cnt = 10 and env = demo_env
      and n = "''Arthas''" and tnet = token_401_net and cnet = no_net and mnet = no_net
      and rdnet = no_net and pc = poe_cfg and pcnet = "status_net 403" and plnet = no_net
      and panet = no_net and nc = wallet_unset and wa = Null and nnet = no_net and cont = Null
      and limit = 50 and w = cold_world]
  have w1: "returns_mock (fetchPlayerSummary steam_unset no_net cold_world) getMockPlayerSummary"
    using unset steam_unset_invalid by blast
  have w4: "returns_mock (fetchCharacterProfile demo_env token_401_net no_net cold_world)
     (getMockCharacterProfile (wow demo_env))"
    using unset ch token_401_blizzard_fails[of no_net "endpoint_of (character_path (wow demo_env))"]
    by blast
  have w5: "fst (fetchCharacters poe_cfg (status_net 403) cold_world) =
     getMockCharacters (now (snd (fetchCharacters poe_cfg (status_net 403) cold_world)))"
    using unset status_net_denied(2)[of "poe_request poe_cfg ''/character''" "now cold_world"]
    by blast
  have w6: "rejects (fetchNFTsForWallet wallet_unset no_net Null Null 50 cold_world)"
    using unset wu by blast
  have w2: "rejects (fetchPlayerSummary steam_cfg (status_net 401) cold_world)"
    using valid steam_cfg_valid
      status_net_denied(1)[of "get_request (player_summary_url steam_cfg) []" "now cold_world"]
    by blast
  have w3: "returns_mock (fetchOwnedGames steam_cfg no_net cold_world) getMockOwnedGames"
    using valid steam_cfg_valid
      no_net_unreachable[of "get_request (owned_games_url steam_cfg) []" "now cold_world"]
    by blast
  from w1 w2 w3 w4 w5 w6 show ?thesis by (intro conjI)
qed

section \<open>Missing configuration\<close>

text \<open>
  Without a wallet address \<open>fetchNFTsForWallet\<close> sends nothing and rejects; it returns no
  fallback data.
\<close>

theorem fetchNFTsForWallet_unconfigured_rejects:
  "fetchNFTsForWallet wallet_unset no_net Null Null 50 cold_world =
     (Inl (JsError ''Error''
        ''Wallet address is not configured. Please add your wallet address to config.js''),
      cold_world)"
  by (simp add: fetchNFTsForWallet_def wallet_unset_def or_str_def truthy_str_def of_config_def)

lemma hasValidCredentials_iff:
  "hasValidCredentials c \<longleftrightarrow>
     (\<exists>k i. steam_apiKey c = Some k \<and> k \<noteq> [] \<and> steam_steamId c = Some i \<and> i \<noteq> [] \<and>
        \<not> str_includes i ''0000000000'')"
  by (cases "steam_apiKey c"; cases "steam_steamId c")
     (auto simp: hasValidCredentials_def config_set_def of_config_def truthy_str_def to_string_def)

text \<open>
  The identity of the mock profile has nine zeros, not ten: next to an API key it passes
  the guard.
\<close>

lemma mock_id_passes_guard: "hasValidCredentials steam_mock_id"
  by (simp add: hasValidCredentials_iff steam_mock_id_def)

text \<open>
  C3 (amended). Where the credential or identifier of a resource is absent, the fetch
  settles in the world in which it was started, so it has sent no HTTP request:
  \<^item> the Steam credentials are valid exactly when there is a non-empty API key and a
    non-empty Steam ID that does not contain \<open>0000000000\<close>; when they are not valid the
    four Steam fetches return their mock data;
  \<^item> with a Blizzard client id or secret missing and no valid token cached,
    \<open>getAccessToken\<close> returns \<open>null\<close>, and the three character fetches return their mock
    data when a character name is configured and reject with a \<open>TypeError\<close> when none
    is;
  \<^item> with the wallet address missing or zero, \<open>fetchNFTsForWallet\<close> rejects with an
    \<open>Error\<close>.
\<close>

theorem unconfigured_sends_nothing:
  "(hasValidCredentials sc \<longleftrightarrow>
      (\<exists>k i. steam_apiKey sc = Some k \<and> k \<noteq> [] \<and> steam_steamId sc = Some i \<and> i \<noteq> [] \<and>
         \<not> str_includes i ''0000000000'')) \<and>
   (\<not> hasValidCredentials sc \<longrightarrow>
      fetchPlayerSummary sc pnet w = (Inr (getMockPlayerSummary (now w)), w) \<and>
      fetchSteamLevel sc lnet w = (Inr getMockSteamLevel, w) \<and>
      fetchOwnedGames sc onet w = (Inr (getMockOwnedGames (now w)), w) \<and>
      fetchRecentGames sc rnet cnt w = (Inr getMockRecentGames, w)) \<and>
   ((\<not> config_set (wow_clientId (wow env)) \<or> \<not> config_set (wow_clientSecret (wow env))) \<and>
    \<not> cached_token_valid w \<longrightarrow>
      getAccessToken env tnet w = (Null, w) \<and>
      (wow_characterName (wow env) = Some n \<longrightarrow>
         fetchCharacterProfile env tnet cnet w = (Inr (getMockCharacterProfile (wow env) (now w)), w) \<and>
         fetchMythicPlusProfile env tnet mnet w = (Inr getMockMythicPlusProfile, w) \<and>
         fetchRaidProgress env tnet rdnet w = (Inr getMockRaidProgress, w)) \<and>
      (wow_characterName (wow env) = None \<longrightarrow>
         fetchCharacterProfile env tnet cnet w =
           (Inl (JsError ''TypeError'' ''Cannot read properties of undefined''), w) \<and>
         fetchMythicPlusProfile env tnet mnet w =
           (Inl (JsError ''TypeError'' ''Cannot read properties of undefined''), w) \<and>
         fetchRaidProgress env tnet rdnet w =
           (Inl (JsError ''TypeError'' ''Cannot read properties of undefined''), w))) \<and>
   (wallet_unconfigured nc wa \<longrightarrow>
      fetchNFTsForWallet nc nnet wa cont limit w =
        (Inl (JsError ''Error''
           ''Wallet address is not configured. Please add your wallet address to config.js''), w))"
proof -
  have steam: "\<not> hasValidCredentials sc \<longrightarrow>
      fetchPlayerSummary sc pnet w = (Inr (getMockPlayerSummary (now w)), w) \<and>
      fetchSteamLevel sc lnet w = (Inr getMockSteamLevel, w) \<and>
      fetchOwnedGames sc onet w = (Inr (getMockOwnedGames (now w)), w) \<and>
      fetchRecentGames sc rnet cnt w = (Inr getMockRecentGames, w)"
    by (simp add: steam_unconfigured)
  have blizzard: "(\<not> config_set (wow_clientId (wow env)) \<or> \<not> config_set (wow_clientSecret (wow env))) \<and>
    \<not> cached_token_valid w \<longrightarrow>
      getAccessToken env tnet w = (Null, w) \<and>
      (wow_characterName (wow env) = Some n \<longrightarrow>
         fetchCharacterProfile env tnet cnet w = (Inr (getMockCharacterProfile (wow env) (now w)), w) \<and>
         fetchMythicPlusProfile env tnet mnet w = (Inr getMockMythicPlusProfile, w) \<and>
         fetchRaidProgress env tnet rdnet w = (Inr getMockRaidProgress, w)) \<and>
      (wow_characterName (wow env) = None \<longrightarrow>
         fetchCharacterProfile env tnet cnet w =
           (Inl (JsError ''TypeError'' ''Cannot read properties of undefined''), w) \<and>
         fetchMythicPlusProfile env tnet mnet w =
           (Inl (JsError ''TypeError'' ''Cannot read properties of undefined''), w) \<and>
         fetchRaidProgress env tnet rdnet w =
           (Inl (JsError ''TypeError'' ''Cannot read properties of undefined''), w))"
  proof (intro impI, elim conjE)
    assume c: "\<not> config_set (wow_clientId (wow env)) \<or> \<not> config_set (wow_clientSecret (wow env))"
      and v: "\<not> cached_token_valid w"
    have g: "getAccessToken env tnet w = (Null, w)"
      using getAccessToken_unconfigured[OF v c] .
    have b: "blizzardFetch env tnet net endpoint w = (Null, w)" for net :: "'x transport" and endpoint
      by (simp add: blizzardFetch_def g truthy_str_def)
    show "getAccessToken env tnet w = (Null, w) \<and>
      (wow_characterName (wow env) = Some n \<longrightarrow>
         fetchCharacterProfile env tnet cnet w = (Inr (getMockCharacterProfile (wow env) (now w)), w) \<and>
         fetchMythicPlusProfile env tnet mnet w = (Inr getMockMythicPlusProfile, w) \<and>
         fetchRaidProgress env tnet rdnet w = (Inr getMockRaidProgress, w)) \<and>
      (wow_characterName (wow env) = None \<longrightarrow>
         fetchCharacterProfile env tnet cnet w =
           (Inl (JsError ''TypeError'' ''Cannot read properties of undefined''), w) \<and>
         fetchMythicPlusProfile env tnet mnet w =
           (Inl (JsError ''TypeError'' ''Cannot read properties of undefined''), w) \<and>
         fetchRaidProgress env tnet rdnet w =
           (Inl (JsError ''TypeError'' ''Cannot read properties of undefined''), w))"
      using g
      by (simp add: fetchCharacterProfile_def fetchMythicPlusProfile_def fetchRaidProgress_def
          character_path_def mythic_path_def raids_path_def b)
  qed
  have nft: "wallet_unconfigured nc wa \<longrightarrow>
      fetchNFTsForWallet nc nnet wa cont limit w =
        (Inl (JsError ''Error''
           ''Wallet address is not configured. Please add your wallet address to config.js''), w)"
    using nft_rejects(1) by blast
  from hasValidCredentials_iff[of sc] steam blizzard nft show ?thesis by (intro conjI)
qed

theorem unconfigured_sends_nothing_witness:
  "\<not> hasValidCredentials steam_unset \<and>
   fetchPlayerSummary steam_unset no_net cold_world =
     (Inr (getMockPlayerSummary (now cold_world)), cold_world) \<and>
   fetchOwnedGames steam_unset (doc_net three_games) cold_world =
     (Inr (getMockOwnedGames (now cold_world)), cold_world) \<and>
   \<not> cached_token_valid cold_world \<and>
   getAccessToken unset_env token_ok_net cold_world = (Null, cold_world) \<and>
   fetchCharacterProfile unset_env token_ok_net no_net cold_world =
     (Inr (getMockCharacterProfile (wow unset_env) (now cold_world)), cold_world) \<and>
   fetchCharacterProfile nameless_env token_ok_net no_net cold_world =
     (Inl (JsError ''TypeError'' ''Cannot read properties of undefined''), cold_world) \<and>
   wallet_unconfigured wallet_unset (Val zero_address) \<and>
   fetchNFTsForWallet wallet_unset no_net (Val zero_address) Null 50 cold_world =
     (Inl (JsError ''Error''
        ''Wallet address is not configured. Please add your wallet address to config.js''),
      cold_world)"
proof -
  have ch: "wow_characterName (wow unset_env) = Some ''Arthas''"
    and cr: "\<not> config_set (wow_clientId (wow unset_env))"
    by (simp_all add: unset_env_def config_set_def of_config_def truthy_str_def)
  have ch': "wow_characterName (wow nameless_env) = None"
    and cr': "\<not> config_set (wow_clientId (wow nameless_env))"
    by (simp_all add: nameless_env_def config_set_def of_config_def truthy_str_def)
  have cold: "\<not> cached_token_valid cold_world"
    by (simp add: cached_token_valid_def cold_world_def truthy_str_def)
  have wu: "wallet_unconfigured wallet_unset (Val zero_address)"
    by (simp add: wallet_unconfigured_def wallet_unset_def or_str_def truthy_str_def of_config_def)
  note inst = unconfigured_sends_nothing[where sc = steam_unset and pnet = no_net and lnet = no_net
      and onet = "doc_net three_games" and rnet = no_net and cnt = 10 and env = unset_env
      and n = "''Arthas''" and tnet = token_ok_net and cnet = no_net and mnet = no_net
      and rdnet = no_net and nc = wallet_unset and wa = "Val zero_address" and nnet = no_net
      and cont = Null and limit = 50 and w = cold_world]
  note inst' = unconfigured_sends_nothing[where sc = steam_unset and pnet = no_net and lnet = no_net
      and onet = "doc_net three_games" and rnet = no_net and cnt = 10 and env = nameless_env
      and n = "''Arthas''" and tnet = token_ok_net and cnet = no_net and mnet = no_net
      and rdnet = no_net and nc = wallet_unset and wa = "Val zero_address" and nnet = no_net
      and cont = Null and limit = 50 and w = cold_world]
  have nameless: "fetchCharacterProfile nameless_env token_ok_net no_net cold_world =
     (Inl (JsError ''TypeError'' ''Cannot read properties of undefined''), cold_world)"
    using inst' ch' cr' cold by blast
  from inst steam_unset_invalid ch cr cold wu nameless show ?thesis by blast
qed

section \<open>The mock data and the clock\<close>

text \<open>
  Two invocations of \<open>getMockCharacterProfile\<close> a minute apart return different values:
  \<open>lastLogin\<close> is \<open>Date.now()\<close>.
\<close>

theorem getMockCharacterProfile_differs_in_time:
  "getMockCharacterProfile (wow demo_env) 1700000000000 \<noteq>
   getMockCharacterProfile (wow demo_env) 1700000060000"
  by (simp add: getMockCharacterProfile_def)

text \<open>
  C9 (amended). The mock data functions that read the clock (\<open>getMockPlayerSummary\<close>,
  \<open>getMockCharacterProfile\<close>, \<open>getMockOwnedGames\<close>, \<open>getMockCharacters\<close>) return, at any
  two clock readings, values that agree in everything but their timestamp members
  (\<open>lastLogoff\<close>, \<open>lastLogin\<close>, \<open>lastPlayed\<close>, \<open>lastActive\<close>), and those are the clock
  reading minus a fixed offset. The other mock data functions are constants.
\<close>

theorem mock_data_clock_dependence:
  "getMockPlayerSummary t1 \<lparr>ps_lastLogoff := x\<rparr> = getMockPlayerSummary t2 \<lparr>ps_lastLogoff := x\<rparr> \<and>
   ps_lastLogoff (getMockPlayerSummary t1) = Val (t1 div 1000 - 3600) \<and>
   getMockCharacterProfile c t1 \<lparr>cp_lastLogin := x\<rparr> = getMockCharacterProfile c t2 \<lparr>cp_lastLogin := x\<rparr> \<and>
   cp_lastLogin (getMockCharacterProfile c t1) = Val t1 \<and>
   ogs_totalCount (getMockOwnedGames t1) = ogs_totalCount (getMockOwnedGames t2) \<and>
   map (\<lambda>g. g\<lparr>og_lastPlayed := x\<rparr>) (ogs_games (getMockOwnedGames t1)) =
     map (\<lambda>g. g\<lparr>og_lastPlayed := x\<rparr>) (ogs_games (getMockOwnedGames t2)) \<and>
   map og_lastPlayed (ogs_games (getMockOwnedGames t1)) =
     map (\<lambda>d. Val (t1 div 1000 - d)) [86400, 172800, 604800, 259200, 2592000, 43200, 86400, 1209600] \<and>
   chd_isMockData (getMockCharacters t1) = chd_isMockData (getMockCharacters t2) \<and>
   map (\<lambda>ch. ch\<lparr>pc_lastActive := x\<rparr>) (chd_characters (getMockCharacters t1)) =
     map (\<lambda>ch. ch\<lparr>pc_lastActive := x\<rparr>) (chd_characters (getMockCharacters t2)) \<and>
   map pc_lastActive (chd_characters (getMockCharacters t1)) =
     map (\<lambda>d. Val (t1 - d)) [3600000, 86400000, 172800000, 604800000, 259200000]"
  by (simp add: getMockPlayerSummary_def getMockCharacterProfile_def getMockOwnedGames_def
      mock_owned_game_def getMockCharacters_def mock_character_def)

section \<open>The \<open>isMockData\<close> flag of the bundles\<close>

lemma wow_requests_fail_500:
  "blizzardFetch demo_env token_ok_net (status_net 500) endpoint cold_world =
     (Null, warm_world\<lparr>now := 1170,
        sent := [token_request demo_env, api_request demo_env endpoint (Val ''tok'')]\<rparr>)"
  by (simp add: blizzardFetch_def demo_first fetch_def status_net_def ok_def truthy_str_def
      warm_world_def)

text \<open>
  C5. The flag is not the disjunction of the constituents' provenance in
  \<open>fetchAllWoWData\<close> and \<open>fetchAllSteamData\<close>. With Blizzard credentials and a successful
  token exchange, when the three resource requests are answered with status 500 all three
  constituents are mock data and \<open>isMockData\<close> is \<open>false\<close>; with valid Steam credentials and
  no connectivity all four constituents are mock data and \<open>isMockData\<close> is \<open>false\<close>.
\<close>

theorem isMockData_false_on_mock_bundles:
  "fst (fetchAllWoWData demo_env token_ok_net (status_net 500) (status_net 500) (status_net 500)
          cold_world) =
     Inr \<lparr>wd_profile = getMockCharacterProfile (wow demo_env) 1170,
          wd_mythicPlus = getMockMythicPlusProfile,
          wd_raids = getMockRaidProgress,
          wd_isMockData = False\<rparr> \<and>
   fst (fetchAllSteamData steam_cfg no_net no_net no_net no_net cold_world) =
     Inr \<lparr>sd_profile = player_summary.extend (getMockPlayerSummary 1000) \<lparr>ps_level = Val 42\<rparr>,
          sd_ownedGames = getMockOwnedGames 1000,
          sd_recentGames = getMockRecentGames,
          sd_isMockData = False\<rparr>"
proof -
  have ch: "wow_characterName (wow demo_env) = Some ''Arthas''"
    by (simp add: demo_env_def)
  have wow_part: "fst (fetchAllWoWData demo_env token_ok_net (status_net 500) (status_net 500)
      (status_net 500) cold_world) =
     Inr \<lparr>wd_profile = getMockCharacterProfile (wow demo_env) 1170,
          wd_mythicPlus = getMockMythicPlusProfile,
          wd_raids = getMockRaidProgress,
          wd_isMockData = False\<rparr>"
    by (simp add: fetchAllWoWData_def fetchCharacterProfile_def fetchMythicPlusProfile_def
        fetchRaidProgress_def character_path_def mythic_path_def raids_path_def ch
        wow_requests_fail_500 Let_def warm_world_def truthy_str_def)
  have e: "steam_get no_net url cold_world =
      (Inl (JsError ''TypeError'' ''Failed to fetch''), cold_world\<lparr>sent := [get_request url []]\<rparr>)"
    for url
    by (simp add: steam_get_def fetch_def no_net_def cold_world_def)
  have c: "cors_like (JsError ''TypeError'' ''Failed to fetch'')"
    by (simp add: cors_like_def)
  have p1: "fetchPlayerSummary steam_cfg no_net cold_world =
      (Inr (getMockPlayerSummary 1000),
       cold_world\<lparr>sent := [get_request (player_summary_url steam_cfg) []]\<rparr>)"
    and p2: "fetchSteamLevel steam_cfg no_net cold_world =
      (Inr (Val 42), cold_world\<lparr>sent := [get_request (steam_level_url steam_cfg) []]\<rparr>)"
    and p3: "fetchOwnedGames steam_cfg no_net cold_world =
      (Inr (getMockOwnedGames 1000),
       cold_world\<lparr>sent := [get_request (owned_games_url steam_cfg) []]\<rparr>)"
    and p4: "fetchRecentGames steam_cfg no_net 10 cold_world =
      (Inr getMockRecentGames,
       cold_world\<lparr>sent := [get_request (recent_games_url steam_cfg 10) []]\<rparr>)"
    using steam_cfg_valid c
    by (simp_all add: fetchPlayerSummary_def fetchSteamLevel_def fetchOwnedGames_def
        fetchRecentGames_def e getMockSteamLevel_def, simp_all add: cold_world_def)
  have steam_part: "fst (fetchAllSteamData steam_cfg no_net no_net no_net no_net cold_world) =
     Inr \<lparr>sd_profile = player_summary.extend (getMockPlayerSummary 1000) \<lparr>ps_level = Val 42\<rparr>,
          sd_ownedGames = getMockOwnedGames 1000,
          sd_recentGames = getMockRecentGames,
          sd_isMockData = False\<rparr>"
    using steam_cfg_valid by (simp add: fetchAllSteamData_def p1 p2 p3 p4 Let_def)
  from wow_part steam_part show ?thesis ..
qed

text \<open>
  \<open>fetchAllPOE2Data\<close> does compute the flag as the disjunction of the flags of its three
  constituents.
\<close>

lemma fetchAllPOE2Data_flag:
  assumes "fetchAllPOE2Data c cnet lnet pnet w = (Inr b, w')"
  shows "p2_isMockData b =
           (chd_isMockData (fst (fetchCharacters c cnet w)) \<or>
            lgd_isMockData (fst (fetchLeagues c lnet w)) \<or>
            ap_isMockData (fst (fetchAccountProfile c pnet w)))"
  using assms
  by (auto simp: fetchAllPOE2Data_def Let_def split: prod.splits sum.splits)

section \<open>Documents of an unexpected shape\<close>

lemma blizzardFetch_cached_doc:
  assumes "cached_token_valid w"
    and "net (api_request env endpoint (accessToken w)) (now w) = (Resolves r, el)"
    and "ok r" "json r = Doc d"
  shows "blizzardFetch env tnet net endpoint w =
           (Val d, w\<lparr>now := now w + int el,
                     sent := sent w @ [api_request env endpoint (accessToken w)]\<rparr>)"
  using assms
  by (simp add: blizzardFetch_def getAccessToken_def fetch_def cached_token_valid_def)





section \<open>The members of the bundles\<close>

lemma is_set_or:
  "is_set b \<Longrightarrow> is_set (or_str a b)"
  "is_set c \<Longrightarrow> is_set (or_number x c)"
  "is_set d \<Longrightarrow> is_set (or_bool y d)"
  "is_set e \<Longrightarrow> is_set (or_obj z e)"
  by (auto simp: is_set_def or_str_def or_number_def or_bool_def or_obj_def truthy_str_def
      truthy_num_def truthy_bool_def truthy_obj_def split: js.splits)

lemma is_set_simps [simp]: "is_set (Val v)" "is_set Null" "\<not> is_set Undefined"
  by (simp_all add: is_set_def)

lemma normalize_profile_defaults: "profile_defaults_set (normalize_profile c d)"
  by (simp add: profile_defaults_set_def normalize_profile_def is_set_or)

lemma mock_profile_defaults: "profile_defaults_set (getMockCharacterProfile c t)"
  by (simp add: profile_defaults_set_def getMockCharacterProfile_def)

lemma normalize_mythic_defaults: "mythic_defaults_set (normalize_mythic d)"
  by (simp add: mythic_defaults_set_def normalize_mythic_def list_all_iff run_defaults_set_def
      normalize_run_def is_set_or)

lemma mock_mythic_defaults: "mythic_defaults_set getMockMythicPlusProfile"
  by (simp add: mythic_defaults_set_def getMockMythicPlusProfile_def run_defaults_set_def)

lemma normalize_raid_defaults: "raid_defaults_set (normalize_raid i)"
  by (simp add: raid_defaults_set_def normalize_raid_def normalize_mode_def list_all_iff is_set_or)

lemma mock_raids_defaults: "raids_defaults_set getMockRaidProgress"
  by (simp add: raids_defaults_set_def getMockRaidProgress_def raid_defaults_set_def)

lemma fetchCharacterProfile_defaults:
  "fst (fetchCharacterProfile env tnet net w) = Inr p \<Longrightarrow> profile_defaults_set p"
  by (auto simp: fetchCharacterProfile_def normalize_profile_defaults mock_profile_defaults
      split: sum.splits prod.splits js.splits)

lemma fetchMythicPlusProfile_defaults:
  "fst (fetchMythicPlusProfile env tnet net w) = Inr m \<Longrightarrow> mythic_defaults_set m"
  by (auto simp: fetchMythicPlusProfile_def normalize_mythic_defaults mock_mythic_defaults
      split: sum.splits prod.splits js.splits)

lemma live_raids_defaults:
  "raids_defaults_set \<lparr>rp_expansionName = or_str x (Val y), rp_raids = map normalize_raid instances\<rparr>"
  by (simp add: raids_defaults_set_def is_set_or list_all_iff normalize_raid_defaults)

lemma fetchRaidProgress_defaults:
  "fst (fetchRaidProgress env tnet net w) = Inr r \<Longrightarrow> raids_defaults_set r"
  by (auto simp: fetchRaidProgress_def mock_raids_defaults live_raids_defaults
      split: sum.splits prod.splits js.splits)

lemma fetchAllWoWData_parts:
  assumes "fetchAllWoWData env tnet pnet mnet rnet w = (Inr b, w')"
  shows "fst (fetchCharacterProfile env tnet pnet w) = Inr (wd_profile b)"
    and "fst (fetchMythicPlusProfile env tnet mnet w) = Inr (wd_mythicPlus b)"
    and "fst (fetchRaidProgress env tnet rnet w) = Inr (wd_raids b)"
  using assms
  by (auto simp: fetchAllWoWData_def Let_def split: sum.splits prod.splits option.splits)

lemma fetchAllWoWData_defaults:
  "fetchAllWoWData env tnet pnet mnet rnet w = (Inr b, w') \<Longrightarrow> wow_defaults_set b"
  unfolding wow_defaults_set_def
  using fetchAllWoWData_parts[of env tnet pnet mnet rnet w b w']
    fetchCharacterProfile_defaults fetchMythicPlusProfile_defaults fetchRaidProgress_defaults
  by blast


lemma fetchSteamLevel_set: "fst (fetchSteamLevel c net w) = Inr l \<Longrightarrow> is_set l"
  by (auto simp: fetchSteamLevel_def getMockSteamLevel_def is_set_or split: if_splits prod.splits sum.splits)

lemma normalize_owned_defaults:
  "is_set (og_playtime2Weeks (normalize_owned g)) \<and> is_set (og_iconUrl (normalize_owned g))"
  by (simp add: normalize_owned_def is_set_or icon_url_def)

lemma mock_owned_defaults:
  "is_set (ogs_totalCount (getMockOwnedGames t))"
  "list_all (\<lambda>g. is_set (og_playtime2Weeks g) \<and> is_set (og_iconUrl g)) (ogs_games (getMockOwnedGames t))"
  "list_all (\<lambda>g. is_set (og_appId g) \<and> is_set (og_name g) \<and> is_set (og_playtimeMinutes g) \<and>
                og_playtimeHours g \<noteq> None \<and> is_set (og_lastPlayed g)) (ogs_games (getMockOwnedGames t))"
  by (simp_all add: getMockOwnedGames_def mock_owned_game_def)

lemma mock_recent_defaults:
  "is_set (rgs_totalCount getMockRecentGames)"
  "list_all (\<lambda>g. is_set (rg_iconUrl g)) (rgs_games getMockRecentGames)"
  "list_all (\<lambda>g. is_set (rg_appId g) \<and> is_set (rg_name g) \<and> is_set (rg_playtimeMinutes g) \<and>
                rg_playtimeHours g \<noteq> None \<and> is_set (rg_playtime2WeeksMinutes g) \<and>
                rg_playtime2WeeksHours g \<noteq> None) (rgs_games getMockRecentGames)"
  by (simp_all add: getMockRecentGames_def mock_recent_game_def)

lemma live_owned_defaults:
  "list_all (\<lambda>g. is_set (og_playtime2Weeks g) \<and> is_set (og_iconUrl g))
     (js_sort by_playtime (map normalize_owned games))"
  by (simp add: list_all_iff set_js_sort normalize_owned_defaults)

lemma live_recent_defaults:
  "list_all (\<lambda>g. is_set (rg_iconUrl g)) (map normalize_recent games)"
  by (simp add: list_all_iff normalize_recent_def icon_url_def)

lemma fetchOwnedGames_defaults:
  assumes "fst (fetchOwnedGames c net w) = Inr g"
  shows "is_set (ogs_totalCount g) \<and>
         list_all (\<lambda>g. is_set (og_playtime2Weeks g) \<and> is_set (og_iconUrl g)) (ogs_games g)"
  using assms
  by (auto simp: fetchOwnedGames_def mock_owned_defaults is_set_or Let_def live_owned_defaults
      split: if_splits prod.splits sum.splits)

lemma fetchRecentGames_defaults:
  assumes "fst (fetchRecentGames c net cnt w) = Inr g"
  shows "is_set (rgs_totalCount g) \<and> list_all (\<lambda>g. is_set (rg_iconUrl g)) (rgs_games g)"
  using assms
  by (auto simp: fetchRecentGames_def mock_recent_defaults is_set_or Let_def live_recent_defaults
      split: if_splits prod.splits sum.splits)

lemma fetchAllSteamData_parts:
  assumes "fetchAllSteamData c pnet lnet onet rnet w = (Inr b, w')"
  shows "fst (fetchSteamLevel c lnet w) = Inr (ps_level (sd_profile b))"
    and "fst (fetchOwnedGames c onet w) = Inr (sd_ownedGames b)"
    and "fst (fetchRecentGames c rnet 10 w) = Inr (sd_recentGames b)"
  using assms
  by (auto simp: fetchAllSteamData_def Let_def player_summary.defs
      split: sum.splits prod.splits option.splits)

lemma fetchAllSteamData_defaults:
  "fetchAllSteamData c pnet lnet onet rnet w = (Inr b, w') \<Longrightarrow> steam_defaults_set b"
  unfolding steam_defaults_set_def
  using fetchAllSteamData_parts[of c pnet lnet onet rnet w b w']
    fetchSteamLevel_set fetchOwnedGames_defaults fetchRecentGames_defaults
  by blast

lemma fetchAllSteamData_unconfigured:
  assumes "\<not> hasValidCredentials c"
  shows "fetchAllSteamData c pnet lnet onet rnet w =
     (Inr \<lparr>sd_profile = player_summary.extend (getMockPlayerSummary (now w)) \<lparr>ps_level = Val 42\<rparr>,
           sd_ownedGames = getMockOwnedGames (now w),
           sd_recentGames = getMockRecentGames,
           sd_isMockData = True\<rparr>, w)"
  using assms
  by (simp add: fetchAllSteamData_def steam_unconfigured Let_def new_sent_def getMockSteamLevel_def)

lemma mock_steam_complete:
  "steam_complete
     \<lparr>sd_profile = player_summary.extend (getMockPlayerSummary t) \<lparr>ps_level = Val 42\<rparr>,
      sd_ownedGames = getMockOwnedGames t,
      sd_recentGames = getMockRecentGames,
      sd_isMockData = True\<rparr>"
  by (simp add: steam_complete_def steam_defaults_set_def mock_owned_defaults mock_recent_defaults
      getMockPlayerSummary_def player_summary.defs del: not_None_eq)

lemma fetchAllWoWData_unconfigured:
  assumes "\<not> config_set (wow_clientId (wow env)) \<or> \<not> config_set (wow_clientSecret (wow env))"
    and "\<not> cached_token_valid w" and "wow_characterName (wow env) = Some n"
  shows "fetchAllWoWData env tnet pnet mnet rnet w =
     (Inr \<lparr>wd_profile = getMockCharacterProfile (wow env) (now w),
           wd_mythicPlus = getMockMythicPlusProfile,
           wd_raids = getMockRaidProgress,
           wd_isMockData = (\<not> truthy_str (accessToken w))\<rparr>, w)"
proof -
  have g: "getAccessToken env tnet w = (Null, w)"
    using getAccessToken_unconfigured[OF assms(2) assms(1)] .
  have b: "blizzardFetch env tnet net endpoint w = (Null, w)" for net :: "'x transport" and endpoint
    by (simp add: blizzardFetch_def g truthy_str_def)
  show ?thesis
    using assms(3)
    by (simp add: fetchAllWoWData_def fetchCharacterProfile_def fetchMythicPlusProfile_def
        fetchRaidProgress_def character_path_def mythic_path_def raids_path_def b Let_def
        new_sent_def)
qed

lemma mock_wow_complete:
  "wow_complete
     \<lparr>wd_profile = getMockCharacterProfile c t, wd_mythicPlus = getMockMythicPlusProfile,
      wd_raids = getMockRaidProgress, wd_isMockData = f\<rparr>"
  by (simp add: wow_complete_def wow_defaults_set_def mock_profile_defaults mock_mythic_defaults
      mock_raids_defaults)
     (simp add: getMockCharacterProfile_def getMockMythicPlusProfile_def is_set_or)

lemma fetchAllPOE2Data_account:
  assumes "fetchAllPOE2Data c cnet lnet pnet w = (Inr b, w')"
    and "is_set (of_config (poe2_accountName c))" "is_set (of_config (poe2_realm c))"
  shows "is_set (ap_name (p2_account b)) \<and> is_set (ap_realm (p2_account b))"
proof -
  have "is_set (ap_name (fst (fetchAccountProfile c pnet w))) \<and>
        is_set (ap_realm (fst (fetchAccountProfile c pnet w)))"
    using assms(2,3)
    by (auto simp: fetchAccountProfile_def mock_account_profile_def is_set_or
        split: prod.splits http_outcome.splits json_body.splits)
  moreover have "p2_account b = fst (fetchAccountProfile c pnet w)"
    using assms(1) by (auto simp: fetchAllPOE2Data_def Let_def split: prod.splits sum.splits)
  ultimately show ?thesis by simp
qed


lemma fetchPlayerSummary_live:
  assumes "hasValidCredentials c"
    and "net (get_request (player_summary_url c) []) (now w) = (Resolves r, el)"
    and "ok r" "json r = Doc d"
    and "opt_chain (opt_chain (pl_response d) pr_players) first_elem = Val p"
  shows "fetchPlayerSummary c net w =
           (Inr (normalize_player p),
            w\<lparr>now := now w + int el, sent := sent w @ [get_request (player_summary_url c) []]\<rparr>)"
  using assms(1,5) steam_get_doc[where net = net, OF assms(2,3,4)]
  by (simp add: fetchPlayerSummary_def)

text \<open>
  With valid credentials and a player that has only an id and a name, the bundle of
  \<open>fetchAllSteamData\<close> has a profile whose other members, \<open>realName\<close> among them, are
  \<open>undefined\<close>; the mock profile has \<open>realName = null\<close>.
\<close>

theorem live_profile_leaves_members_unset:
  "fst (fetchAllSteamData steam_cfg (doc_net one_player) no_net no_net no_net cold_world) =
     Inr \<lparr>sd_profile =
            player_summary.extend
              \<lparr>ps_steamId = Val ''76561198012345678'', ps_personaName = Val ''Me'',
               ps_avatarUrl = Undefined, ps_profileUrl = Undefined, ps_personaState = Undefined,
               ps_lastLogoff = Undefined, ps_timeCreated = Undefined, ps_realName = Undefined,
               ps_countryCode = Undefined\<rparr>
              \<lparr>ps_level = Val 42\<rparr>,
          sd_ownedGames = getMockOwnedGames 1000,
          sd_recentGames = getMockRecentGames,
          sd_isMockData = False\<rparr> \<and>
   ps_realName (getMockPlayerSummary 1000) = Null"
proof -
  let ?r = "\<lparr>status = 200, statusText = ''OK'', body_text = [], json = Doc one_player\<rparr>"
  have q: "doc_net one_player (get_request (player_summary_url steam_cfg) []) (now cold_world) =
      (Resolves ?r, 50)"
    by (simp add: doc_net_def)
  have o: "ok ?r" "json ?r = Doc one_player"
    by (simp_all add: ok_def)
  have f: "opt_chain (opt_chain (pl_response one_player) pr_players) first_elem =
      Val \<lparr>sp_steamid = Val ''76561198012345678'', sp_personaname = Val ''Me'',
          sp_avatarfull = Undefined, sp_profileurl = Undefined, sp_personastate = Undefined,
          sp_lastlogoff = Undefined, sp_timecreated = Undefined, sp_realname = Undefined,
          sp_loccountrycode = Undefined\<rparr>"
    by (simp add: one_player_def opt_chain_def first_elem_def)
  note p1 = fetchPlayerSummary_live[where net = "doc_net one_player", OF steam_cfg_valid q o f]
  have e: "steam_get no_net url cold_world =
      (Inl (JsError ''TypeError'' ''Failed to fetch''), cold_world\<lparr>sent := [get_request url []]\<rparr>)"
    for url
    by (simp add: steam_get_def fetch_def no_net_def cold_world_def)
  have c: "cors_like (JsError ''TypeError'' ''Failed to fetch'')"
    by (simp add: cors_like_def)
  have p2: "fetchSteamLevel steam_cfg no_net cold_world =
      (Inr (Val 42), cold_world\<lparr>sent := [get_request (steam_level_url steam_cfg) []]\<rparr>)"
    and p3: "fetchOwnedGames steam_cfg no_net cold_world =
      (Inr (getMockOwnedGames 1000),
       cold_world\<lparr>sent := [get_request (owned_games_url steam_cfg) []]\<rparr>)"
    and p4: "fetchRecentGames steam_cfg no_net 10 cold_world =
      (Inr getMockRecentGames,
       cold_world\<lparr>sent := [get_request (recent_games_url steam_cfg 10) []]\<rparr>)"
    using steam_cfg_valid c
    by (simp_all add: fetchSteamLevel_def fetchOwnedGames_def
        fetchRecentGames_def e getMockSteamLevel_def, simp_all add: cold_world_def)
  show ?thesis
    using steam_cfg_valid
    by (simp add: fetchAllSteamData_def p1 p2 p3 p4 Let_def normalize_player_def
        getMockPlayerSummary_def)
qed

lemma fetchAllSteamData_profile:
  assumes "fetchAllSteamData c pnet lnet onet rnet w = (Inr b, w')"
  shows "\<exists>s. fst (fetchPlayerSummary c pnet w) = Inr s \<and>
           sd_profile b = player_summary.extend s \<lparr>ps_level = ps_level (sd_profile b)\<rparr>"
  using assms
  by (auto simp: fetchAllSteamData_def Let_def player_summary.defs
      split: sum.splits prod.splits option.splits)

lemma extend_members:
  "ps_steamId (player_summary.extend s m) = ps_steamId s"
  "ps_personaName (player_summary.extend s m) = ps_personaName s"
  "ps_avatarUrl (player_summary.extend s m) = ps_avatarUrl s"
  "ps_profileUrl (player_summary.extend s m) = ps_profileUrl s"
  "ps_personaState (player_summary.extend s m) = ps_personaState s"
  "ps_lastLogoff (player_summary.extend s m) = ps_lastLogoff s"
  "ps_timeCreated (player_summary.extend s m) = ps_timeCreated s"
  "ps_realName (player_summary.extend s m) = ps_realName s"
  "ps_countryCode (player_summary.extend s m) = ps_countryCode s"
  by (simp_all add: player_summary.defs)

lemma fetchOwnedGames_live:
  assumes "hasValidCredentials c"
    and "net (get_request (owned_games_url c) []) (now w) = (Resolves r, el)"
    and "ok r" "json r = Doc d"
  shows "\<exists>res. fst (fetchOwnedGames c net w) = Inr res \<and>
           ogs_games res =
             js_sort by_playtime (map normalize_owned (or_empty (opt_chain (ow_response d) ow_games)))"
  using assms(1) steam_get_doc[where net = net, OF assms(2,3,4)]
  by (simp add: fetchOwnedGames_def Let_def)

lemma fetchRecentGames_live:
  assumes "hasValidCredentials c"
    and "net (get_request (recent_games_url c cnt) []) (now w) = (Resolves r, el)"
    and "ok r" "json r = Doc d"
  shows "\<exists>res. fst (fetchRecentGames c net cnt w) = Inr res \<and>
           rgs_games res = map normalize_recent (or_empty (opt_chain (rc_response d) rc_games))"
  using assms(1) steam_get_doc[where net = net, OF assms(2,3,4)]
  by (simp add: fetchRecentGames_def Let_def)

lemma fetchCharacterProfile_live:
  assumes "wow_characterName (wow env) = Some n" and "cached_token_valid w"
    and "net (api_request env (endpoint_of (character_path (wow env))) (accessToken w)) (now w) =
           (Resolves r, el)"
    and "ok r" "json r = Doc d"
  shows "fst (fetchCharacterProfile env tnet net w) = Inr (normalize_profile (wow env) d)"
  using blizzardFetch_cached_doc[where net = net, OF assms(2,3,4,5), of tnet] assms(1)
  by (simp add: fetchCharacterProfile_def character_path_def endpoint_of_def)

lemma fetchAllWoWData_named:
  assumes "fetchAllWoWData env tnet pnet mnet rnet w = (Inr b, w')"
  shows "\<exists>n. wow_characterName (wow env) = Some n"
  using fetchAllWoWData_parts(1)[OF assms]
  by (cases "wow_characterName (wow env)") (auto simp: fetchCharacterProfile_def character_path_def)

lemma fetchSteamLevel_returns: "\<exists>l. fst (fetchSteamLevel c net w) = Inr l"
  by (auto simp: fetchSteamLevel_def split: prod.splits sum.splits)

lemma fetchAllSteamData_returns:
  assumes "fst (fetchPlayerSummary c pnet w) = Inr a" and "fst (fetchSteamLevel c lnet w) = Inr l"
    and "fst (fetchOwnedGames c onet w) = Inr og" and "fst (fetchRecentGames c rnet 10 w) = Inr rg"
  shows "\<not> isl (fst (fetchAllSteamData c pnet lnet onet rnet w))"
  using assms by (simp add: fetchAllSteamData_def Let_def)

lemma fetchAllWoWData_returns:
  assumes "wow_characterName (wow env) = Some n"
  shows "\<not> isl (fst (fetchAllWoWData env tnet pnet mnet rnet w))"
  using wow_never_rejects(1)[OF assms, of tnet pnet w] wow_never_rejects(2)[OF assms, of tnet mnet w]
    wow_never_rejects(3)[OF assms, of tnet rnet w]
  by (auto simp: fetchAllWoWData_def Let_def rejects_def split: sum.splits)

lemma returned: "\<not> isl (fst X) \<Longrightarrow> X = (Inr (projr (fst X)), snd X)"
  by (cases X; cases "fst X") auto

text \<open>
  C7 (amended).
  \<^item> Every bundle that \<open>fetchAllWoWData\<close> or \<open>fetchAllSteamData\<close> returns, live or
    fallback, has the members set for which the live path has a default (class, race,
    level, faction, item levels, guild, rating and its colour, the runs' and raids'
    members; Steam level, total counts, \<open>playtime2Weeks\<close>, \<open>iconUrl\<close>); the account of a
    Path of Exile bundle has name and realm set when both are configured.
  \<^item> On the fallback path for missing credentials every member of the Steam bundle is
    set, and so is every member of the WoW bundle when a character name is configured;
    \<open>fetchAllWoWData\<close> returns a bundle only when a character name is configured.
  \<^item> On the live path, that is with valid Steam credentials, or a valid cached Blizzard
    token, and a request answered 2xx with a JSON document (for the Steam profile, one
    that lists the player), the members without a default are the upstream members as they are, \<open>undefined\<close> where upstream has
    none: the nine members of the Steam profile from \<open>steamId\<close> to \<open>countryCode\<close>;
    \<open>appId\<close>, \<open>name\<close>, \<open>playtimeMinutes\<close> and \<open>lastPlayed\<close> of every owned game, the
    owned games being the normalized upstream games in some order; \<open>appId\<close>, \<open>name\<close>,
    \<open>playtimeMinutes\<close> and \<open>playtime2WeeksMinutes\<close> of every recent game, in upstream
    order; \<open>name\<close> and \<open>lastLogin\<close> of the WoW profile. So live and fallback bundles
    agree in the defaulted members being set, while the other members can be
    \<open>undefined\<close> in a live bundle.
\<close>

theorem bundle_members_set:
  "(fetchAllWoWData env tnet cnet mnet rdnet w = (Inr b, ww) \<longrightarrow> wow_defaults_set b) \<and>
   (fetchAllSteamData sc pnet lnet onet rnet w = (Inr sb, ws) \<longrightarrow> steam_defaults_set sb) \<and>
   (fetchAllPOE2Data pc pcnet plnet panet w = (Inr pb, wp) \<and>
    is_set (of_config (poe2_accountName pc)) \<and> is_set (of_config (poe2_realm pc)) \<longrightarrow>
      is_set (ap_name (p2_account pb)) \<and> is_set (ap_realm (p2_account pb))) \<and>
   (\<not> hasValidCredentials sc \<longrightarrow>
      (\<exists>sb'. fetchAllSteamData sc pnet lnet onet rnet w = (Inr sb', w) \<and> steam_complete sb')) \<and>
   ((\<not> config_set (wow_clientId (wow env)) \<or> \<not> config_set (wow_clientSecret (wow env))) \<and>
    \<not> cached_token_valid w \<and> wow_characterName (wow env) = Some n \<longrightarrow>
      (\<exists>b'. fetchAllWoWData env tnet cnet mnet rdnet w = (Inr b', w) \<and> wow_complete b')) \<and>
   (hasValidCredentials sc \<and>
    pnet (get_request (player_summary_url sc) []) (now w) = (Resolves r, el) \<and> ok r \<and>
    json r = Doc d \<and> opt_chain (opt_chain (pl_response d) pr_players) first_elem = Val p \<longrightarrow>
      fst (fetchPlayerSummary sc pnet w) = Inr (normalize_player p) \<and>
      ps_realName (normalize_player p) = sp_realname p \<and>
      ps_countryCode (normalize_player p) = sp_loccountrycode p \<and>
      (fetchAllSteamData sc pnet lnet onet rnet w = (Inr sb, ws) \<longrightarrow>
         ps_steamId (sd_profile sb) = sp_steamid p \<and>
         ps_personaName (sd_profile sb) = sp_personaname p \<and>
         ps_avatarUrl (sd_profile sb) = sp_avatarfull p \<and>
         ps_profileUrl (sd_profile sb) = sp_profileurl p \<and>
         ps_personaState (sd_profile sb) = sp_personastate p \<and>
         ps_lastLogoff (sd_profile sb) = sp_lastlogoff p \<and>
         ps_timeCreated (sd_profile sb) = sp_timecreated p \<and>
         ps_realName (sd_profile sb) = sp_realname p \<and>
         ps_countryCode (sd_profile sb) = sp_loccountrycode p)) \<and>
   (hasValidCredentials sc \<and> fetchAllSteamData sc pnet lnet onet rnet w = (Inr sb, ws) \<and>
    onet (get_request (owned_games_url sc) []) (now w) = (Resolves ro, elo) \<and> ok ro \<and>
    json ro = Doc od \<longrightarrow>
      mset (ogs_games (sd_ownedGames sb)) =
        mset (map normalize_owned (or_empty (opt_chain (ow_response od) ow_games)))) \<and>
   (og_appId (normalize_owned g) = sg_appid g \<and> og_name (normalize_owned g) = sg_name g \<and>
    og_playtimeMinutes (normalize_owned g) = sg_playtime_forever g \<and>
    og_lastPlayed (normalize_owned g) = sg_rtime_last_played g) \<and>
   (hasValidCredentials sc \<and> fetchAllSteamData sc pnet lnet onet rnet w = (Inr sb, ws) \<and>
    rnet (get_request (recent_games_url sc 10) []) (now w) = (Resolves rr, elr) \<and> ok rr \<and>
    json rr = Doc rd \<longrightarrow>
      rgs_games (sd_recentGames sb) =
        map normalize_recent (or_empty (opt_chain (rc_response rd) rc_games))) \<and>
   (rg_appId (normalize_recent g) = sg_appid g \<and> rg_name (normalize_recent g) = sg_name g \<and>
    rg_playtimeMinutes (normalize_recent g) = sg_playtime_forever g \<and>
    rg_playtime2WeeksMinutes (normalize_recent g) = sg_playtime_2weeks g) \<and>
   (fetchAllWoWData env tnet cnet mnet rdnet w = (Inr b, ww) \<and> cached_token_valid w \<and>
    cnet (api_request env (endpoint_of (character_path (wow env))) (accessToken w)) (now w) =
      (Resolves rc, elc) \<and> ok rc \<and> json rc = Doc cd \<longrightarrow>
      wd_profile b = normalize_profile (wow env) cd \<and>
      cp_name (wd_profile b) = pd_name cd \<and>
      cp_lastLogin (wd_profile b) = pd_last_login_timestamp cd) \<and>
   (fetchAllWoWData env tnet cnet mnet rdnet w = (Inr b, ww) \<longrightarrow>
      wow_characterName (wow env) \<noteq> None)"
proof -
  have a: "fetchAllWoWData env tnet cnet mnet rdnet w = (Inr b, ww) \<longrightarrow> wow_defaults_set b"
    using fetchAllWoWData_defaults by blast
  have s: "fetchAllSteamData sc pnet lnet onet rnet w = (Inr sb, ws) \<longrightarrow> steam_defaults_set sb"
    using fetchAllSteamData_defaults by blast
  have p: "fetchAllPOE2Data pc pcnet plnet panet w = (Inr pb, wp) \<and>
    is_set (of_config (poe2_accountName pc)) \<and> is_set (of_config (poe2_realm pc)) \<longrightarrow>
      is_set (ap_name (p2_account pb)) \<and> is_set (ap_realm (p2_account pb))"
    using fetchAllPOE2Data_account by blast
  have sm: "\<not> hasValidCredentials sc \<longrightarrow>
      (\<exists>sb'. fetchAllSteamData sc pnet lnet onet rnet w = (Inr sb', w) \<and> steam_complete sb')"
    using fetchAllSteamData_unconfigured[of sc pnet lnet onet rnet w] mock_steam_complete
    by auto
  have wm: "(\<not> config_set (wow_clientId (wow env)) \<or> \<not> config_set (wow_clientSecret (wow env))) \<and>
    \<not> cached_token_valid w \<and> wow_characterName (wow env) = Some n \<longrightarrow>
      (\<exists>b'. fetchAllWoWData env tnet cnet mnet rdnet w = (Inr b', w) \<and> wow_complete b')"
    using fetchAllWoWData_unconfigured[of env w n tnet cnet mnet rdnet] mock_wow_complete
    by auto
  have lv: "hasValidCredentials sc \<and>
    pnet (get_request (player_summary_url sc) []) (now w) = (Resolves r, el) \<and> ok r \<and>
    json r = Doc d \<and> opt_chain (opt_chain (pl_response d) pr_players) first_elem = Val p \<longrightarrow>
      fst (fetchPlayerSummary sc pnet w) = Inr (normalize_player p) \<and>
      ps_realName (normalize_player p) = sp_realname p \<and>
      ps_countryCode (normalize_player p) = sp_loccountrycode p \<and>
      (fetchAllSteamData sc pnet lnet onet rnet w = (Inr sb, ws) \<longrightarrow>
         ps_steamId (sd_profile sb) = sp_steamid p \<and>
         ps_personaName (sd_profile sb) = sp_personaname p \<and>
         ps_avatarUrl (sd_profile sb) = sp_avatarfull p \<and>
         ps_profileUrl (sd_profile sb) = sp_profileurl p \<and>
         ps_personaState (sd_profile sb) = sp_personastate p \<and>
         ps_lastLogoff (sd_profile sb) = sp_lastlogoff p \<and>
         ps_timeCreated (sd_profile sb) = sp_timecreated p \<and>
         ps_realName (sd_profile sb) = sp_realname p \<and>
         ps_countryCode (sd_profile sb) = sp_loccountrycode p)"
  proof (intro impI, elim conjE)
    assume h: "hasValidCredentials sc"
      "pnet (get_request (player_summary_url sc) []) (now w) = (Resolves r, el)" "ok r"
      "json r = Doc d" "opt_chain (opt_chain (pl_response d) pr_players) first_elem = Val p"
    have f: "fst (fetchPlayerSummary sc pnet w) = Inr (normalize_player p)"
      using fetchPlayerSummary_live[where net = pnet, OF h] by simp
    have bd: "fetchAllSteamData sc pnet lnet onet rnet w = (Inr sb, ws) \<longrightarrow>
         ps_steamId (sd_profile sb) = sp_steamid p \<and>
         ps_personaName (sd_profile sb) = sp_personaname p \<and>
         ps_avatarUrl (sd_profile sb) = sp_avatarfull p \<and>
         ps_profileUrl (sd_profile sb) = sp_profileurl p \<and>
         ps_personaState (sd_profile sb) = sp_personastate p \<and>
         ps_lastLogoff (sd_profile sb) = sp_lastlogoff p \<and>
         ps_timeCreated (sd_profile sb) = sp_timecreated p \<and>
         ps_realName (sd_profile sb) = sp_realname p \<and>
         ps_countryCode (sd_profile sb) = sp_loccountrycode p"
    proof
      assume x: "fetchAllSteamData sc pnet lnet onet rnet w = (Inr sb, ws)"
      from fetchAllSteamData_profile[OF x] f
      have e: "sd_profile sb =
          player_summary.extend (normalize_player p) \<lparr>ps_level = ps_level (sd_profile sb)\<rparr>"
        by auto
      show "ps_steamId (sd_profile sb) = sp_steamid p \<and>
         ps_personaName (sd_profile sb) = sp_personaname p \<and>
         ps_avatarUrl (sd_profile sb) = sp_avatarfull p \<and>
         ps_profileUrl (sd_profile sb) = sp_profileurl p \<and>
         ps_personaState (sd_profile sb) = sp_personastate p \<and>
         ps_lastLogoff (sd_profile sb) = sp_lastlogoff p \<and>
         ps_timeCreated (sd_profile sb) = sp_timecreated p \<and>
         ps_realName (sd_profile sb) = sp_realname p \<and>
         ps_countryCode (sd_profile sb) = sp_loccountrycode p"
        by (subst e, simp only: extend_members, simp add: normalize_player_def)+
    qed
    from f bd
    show "fst (fetchPlayerSummary sc pnet w) = Inr (normalize_player p) \<and>
      ps_realName (normalize_player p) = sp_realname p \<and>
      ps_countryCode (normalize_player p) = sp_loccountrycode p \<and>
      (fetchAllSteamData sc pnet lnet onet rnet w = (Inr sb, ws) \<longrightarrow>
         ps_steamId (sd_profile sb) = sp_steamid p \<and>
         ps_personaName (sd_profile sb) = sp_personaname p \<and>
         ps_avatarUrl (sd_profile sb) = sp_avatarfull p \<and>
         ps_profileUrl (sd_profile sb) = sp_profileurl p \<and>
         ps_personaState (sd_profile sb) = sp_personastate p \<and>
         ps_lastLogoff (sd_profile sb) = sp_lastlogoff p \<and>
         ps_timeCreated (sd_profile sb) = sp_timecreated p \<and>
         ps_realName (sd_profile sb) = sp_realname p \<and>
         ps_countryCode (sd_profile sb) = sp_loccountrycode p)"
      by (simp add: normalize_player_def)
  qed
  have og: "hasValidCredentials sc \<and> fetchAllSteamData sc pnet lnet onet rnet w = (Inr sb, ws) \<and>
    onet (get_request (owned_games_url sc) []) (now w) = (Resolves ro, elo) \<and> ok ro \<and>
    json ro = Doc od \<longrightarrow>
      mset (ogs_games (sd_ownedGames sb)) =
        mset (map normalize_owned (or_empty (opt_chain (ow_response od) ow_games)))"
  proof (intro impI, elim conjE)
    assume h: "hasValidCredentials sc"
      and x: "fetchAllSteamData sc pnet lnet onet rnet w = (Inr sb, ws)"
      and q: "onet (get_request (owned_games_url sc) []) (now w) = (Resolves ro, elo)" "ok ro"
        "json ro = Doc od"
    from fetchOwnedGames_live[where net = onet, OF h q] fetchAllSteamData_parts(2)[OF x]
    show "mset (ogs_games (sd_ownedGames sb)) =
        mset (map normalize_owned (or_empty (opt_chain (ow_response od) ow_games)))"
      by (auto simp: mset_js_sort)
  qed
  have ogc: "og_appId (normalize_owned g) = sg_appid g \<and> og_name (normalize_owned g) = sg_name g \<and>
    og_playtimeMinutes (normalize_owned g) = sg_playtime_forever g \<and>
    og_lastPlayed (normalize_owned g) = sg_rtime_last_played g"
    by (simp add: normalize_owned_def)
  have rg: "hasValidCredentials sc \<and> fetchAllSteamData sc pnet lnet onet rnet w = (Inr sb, ws) \<and>
    rnet (get_request (recent_games_url sc 10) []) (now w) = (Resolves rr, elr) \<and> ok rr \<and>
    json rr = Doc rd \<longrightarrow>
      rgs_games (sd_recentGames sb) =
        map normalize_recent (or_empty (opt_chain (rc_response rd) rc_games))"
  proof (intro impI, elim conjE)
    assume h: "hasValidCredentials sc"
      and x: "fetchAllSteamData sc pnet lnet onet rnet w = (Inr sb, ws)"
      and q: "rnet (get_request (recent_games_url sc 10) []) (now w) = (Resolves rr, elr)" "ok rr"
        "json rr = Doc rd"
    from fetchRecentGames_live[where net = rnet, OF h q] fetchAllSteamData_parts(3)[OF x]
    show "rgs_games (sd_recentGames sb) =
        map normalize_recent (or_empty (opt_chain (rc_response rd) rc_games))"
      by auto
  qed
  have rgc: "rg_appId (normalize_recent g) = sg_appid g \<and> rg_name (normalize_recent g) = sg_name g \<and>
    rg_playtimeMinutes (normalize_recent g) = sg_playtime_forever g \<and>
    rg_playtime2WeeksMinutes (normalize_recent g) = sg_playtime_2weeks g"
    by (simp add: normalize_recent_def)
  have wl: "fetchAllWoWData env tnet cnet mnet rdnet w = (Inr b, ww) \<and> cached_token_valid w \<and>
    cnet (api_request env (endpoint_of (character_path (wow env))) (accessToken w)) (now w) =
      (Resolves rc, elc) \<and> ok rc \<and> json rc = Doc cd \<longrightarrow>
      wd_profile b = normalize_profile (wow env) cd \<and>
      cp_name (wd_profile b) = pd_name cd \<and>
      cp_lastLogin (wd_profile b) = pd_last_login_timestamp cd"
  proof (intro impI, elim conjE)
    assume x: "fetchAllWoWData env tnet cnet mnet rdnet w = (Inr b, ww)"
      and v: "cached_token_valid w"
      and q: "cnet (api_request env (endpoint_of (character_path (wow env))) (accessToken w)) (now w) =
        (Resolves rc, elc)" "ok rc" "json rc = Doc cd"
    from fetchAllWoWData_named[OF x] obtain n' where n': "wow_characterName (wow env) = Some n'"
      by blast
    from fetchCharacterProfile_live[where net = cnet, OF n' v q, of tnet]
      fetchAllWoWData_parts(1)[OF x]
    have "wd_profile b = normalize_profile (wow env) cd" by simp
    then show "wd_profile b = normalize_profile (wow env) cd \<and>
      cp_name (wd_profile b) = pd_name cd \<and>
      cp_lastLogin (wd_profile b) = pd_last_login_timestamp cd"
      by (simp add: normalize_profile_def)
  qed
  have nm: "fetchAllWoWData env tnet cnet mnet rdnet w = (Inr b, ww) \<longrightarrow>
      wow_characterName (wow env) \<noteq> None"
    using fetchAllWoWData_named by blast
  from a s p sm wm lv og ogc rg rgc wl nm show ?thesis
    by - ((rule conjI, assumption)+, assumption)
qed


lemma mock_current_league:
  "getCurrentLeague (lgd_leagues getMockLeagues) = Inr (Listed (hd (lgd_leagues getMockLeagues)))"
  by (simp add: getCurrentLeague_def getMockLeagues_def is_challenge_def)

lemma poe_offline:
  "fst (fetchAllPOE2Data poe_cfg no_net no_net no_net cold_world) =
     Inr \<lparr>p2_account = mock_account_profile poe_cfg,
          p2_characters = chd_characters (getMockCharacters 1000),
          p2_leagues = lgd_leagues getMockLeagues,
          p2_currentLeague = Listed (hd (lgd_leagues getMockLeagues)),
          p2_isMockData = True\<rparr>"
proof -
  have c: "fetchCharacters poe_cfg no_net cold_world =
      (getMockCharacters 1000, cold_world\<lparr>sent := [poe_request poe_cfg ''/character'']\<rparr>)"
    and l: "fetchLeagues poe_cfg no_net cold_world =
      (getMockLeagues, cold_world\<lparr>sent := [poe_request poe_cfg ''/league'']\<rparr>)"
    and p: "fetchAccountProfile poe_cfg no_net cold_world =
      (mock_account_profile poe_cfg, cold_world\<lparr>sent := [poe_request poe_cfg ''/profile'']\<rparr>)"
    by (simp_all add: fetchCharacters_def fetchLeagues_def fetchAccountProfile_def fetch_def
        no_net_def cold_world_def)
  show ?thesis
    by (simp add: fetchAllPOE2Data_def c l p Let_def mock_current_league)
       (simp add: getMockCharacters_def getMockLeagues_def mock_account_profile_def)
qed

theorem bundle_members_set_witness:
  "steam_complete
     \<lparr>sd_profile = player_summary.extend (getMockPlayerSummary (now cold_world)) \<lparr>ps_level = Val 42\<rparr>,
      sd_ownedGames = getMockOwnedGames (now cold_world),
      sd_recentGames = getMockRecentGames,
      sd_isMockData = True\<rparr> \<and>
   wow_defaults_set
     \<lparr>wd_profile = getMockCharacterProfile (wow unset_env) (now cold_world),
      wd_mythicPlus = getMockMythicPlusProfile, wd_raids = getMockRaidProgress,
      wd_isMockData = True\<rparr> \<and>
   (\<exists>b'. fetchAllWoWData unset_env token_ok_net no_net no_net no_net cold_world = (Inr b', cold_world) \<and>
      wow_complete b') \<and>
   is_set (ap_name (p2_account (projr (fst (fetchAllPOE2Data poe_cfg no_net no_net no_net cold_world))))) \<and>
   fst (fetchPlayerSummary steam_cfg (doc_net one_player) cold_world) =
     Inr (normalize_player
       \<lparr>sp_steamid = Val ''76561198012345678'', sp_personaname = Val ''Me'',
        sp_avatarfull = Undefined, sp_profileurl = Undefined, sp_personastate = Undefined,
        sp_lastlogoff = Undefined, sp_timecreated = Undefined, sp_realname = Undefined,
        sp_loccountrycode = Undefined\<rparr>) \<and>
   ps_personaName (sd_profile (projr (fst (fetchAllSteamData steam_cfg (doc_net one_player) no_net (doc_net three_games) (doc_net two_recent) warm_world)))) = Val ''Me'' \<and>
   ps_realName (sd_profile (projr (fst (fetchAllSteamData steam_cfg (doc_net one_player) no_net (doc_net three_games) (doc_net two_recent) warm_world)))) = Undefined \<and>
   steam_defaults_set (projr (fst (fetchAllSteamData steam_cfg (doc_net one_player) no_net (doc_net three_games) (doc_net two_recent) warm_world))) \<and>
   mset (ogs_games (sd_ownedGames (projr (fst (fetchAllSteamData steam_cfg (doc_net one_player) no_net (doc_net three_games) (doc_net two_recent) warm_world))))) =
     mset (map normalize_owned [game_of 10 ''A'' 100, game_of 20 ''B'' 500, game_of 30 ''C'' 300]) \<and>
   og_lastPlayed (normalize_owned (game_of 10 ''A'' 100)) = Undefined \<and>
   rgs_games (sd_recentGames (projr (fst (fetchAllSteamData steam_cfg (doc_net one_player) no_net (doc_net three_games) (doc_net two_recent) warm_world)))) =
     map normalize_recent [game_of 10 ''A'' 100, game_of 30 ''C'' 500] \<and>
   rg_playtime2WeeksMinutes (normalize_recent (game_of 10 ''A'' 100)) = Undefined \<and>
   wow_defaults_set (projr (fst (fetchAllWoWData demo_env token_ok_net (doc_net empty_profile) no_net no_net warm_world))) \<and>
   cp_name (wd_profile (projr (fst (fetchAllWoWData demo_env token_ok_net (doc_net empty_profile) no_net no_net warm_world)))) = Undefined \<and>
   cp_lastLogin (wd_profile (projr (fst (fetchAllWoWData demo_env token_ok_net (doc_net empty_profile) no_net no_net warm_world)))) = Undefined \<and>
   wow_characterName (wow demo_env) \<noteq> None"
proof -
  let ?sb = "\<lparr>sd_profile = player_summary.extend (getMockPlayerSummary (now cold_world)) \<lparr>ps_level = Val 42\<rparr>,
      sd_ownedGames = getMockOwnedGames (now cold_world),
      sd_recentGames = getMockRecentGames,
      sd_isMockData = True\<rparr>"
  let ?b = "\<lparr>wd_profile = getMockCharacterProfile (wow unset_env) (now cold_world),
      wd_mythicPlus = getMockMythicPlusProfile, wd_raids = getMockRaidProgress,
      wd_isMockData = True\<rparr>"
  let ?X = "fetchAllPOE2Data poe_cfg no_net no_net no_net cold_world"
  let ?SX = "fetchAllSteamData steam_cfg (doc_net one_player) no_net (doc_net three_games) (doc_net two_recent) warm_world"
  let ?WX = "fetchAllWoWData demo_env token_ok_net (doc_net empty_profile) no_net no_net warm_world"
  let ?r = "\<lparr>status = 200, statusText = ''OK'', body_text = [], json = Doc one_player\<rparr>"
  let ?ro = "\<lparr>status = 200, statusText = ''OK'', body_text = [], json = Doc three_games\<rparr>"
  let ?rr = "\<lparr>status = 200, statusText = ''OK'', body_text = [], json = Doc two_recent\<rparr>"
  let ?rc = "\<lparr>status = 200, statusText = ''OK'', body_text = [], json = Doc empty_profile\<rparr>"
  let ?g = "game_of 10 ''A'' 100"
  let ?p = "\<lparr>sp_steamid = Val ''76561198012345678'', sp_personaname = Val ''Me'',
        sp_avatarfull = Undefined, sp_profileurl = Undefined, sp_personastate = Undefined,
        sp_lastlogoff = Undefined, sp_timecreated = Undefined, sp_realname = Undefined,
        sp_loccountrycode = Undefined\<rparr>"
  have ch: "wow_characterName (wow unset_env) = Some ''Arthas''"
    and cr: "\<not> config_set (wow_clientId (wow unset_env))"
    by (simp_all add: unset_env_def config_set_def of_config_def truthy_str_def)
  have cold: "\<not> cached_token_valid cold_world" "accessToken cold_world = Null"
    by (simp_all add: cached_token_valid_def cold_world_def truthy_str_def)
  have sX: "fetchAllSteamData steam_unset no_net no_net no_net no_net cold_world = (Inr ?sb, cold_world)"
    using fetchAllSteamData_unconfigured[OF steam_unset_invalid] .
  have wX: "fetchAllWoWData unset_env token_ok_net no_net no_net no_net cold_world = (Inr ?b, cold_world)"
    using fetchAllWoWData_unconfigured[where tnet = token_ok_net, OF _ cold(1) ch] cr cold(2)
    by (simp add: truthy_str_def)
  have pX: "?X = (Inr (projr (fst ?X)), snd ?X)"
    using poe_offline by (cases ?X) simp
  have pc: "is_set (of_config (poe2_accountName poe_cfg))" "is_set (of_config (poe2_realm poe_cfg))"
    by (simp_all add: poe_cfg_def of_config_def)
  have q: "doc_net one_player (get_request (player_summary_url steam_cfg) []) (now cold_world) =
      (Resolves ?r, 50)"
    and q': "doc_net one_player (get_request (player_summary_url steam_cfg) []) (now warm_world) =
      (Resolves ?r, 50)"
    and qo: "doc_net three_games (get_request (owned_games_url steam_cfg) []) (now warm_world) =
      (Resolves ?ro, 50)"
    and qr: "doc_net two_recent (get_request (recent_games_url steam_cfg 10) []) (now warm_world) =
      (Resolves ?rr, 50)"
    and qc: "doc_net empty_profile
        (api_request demo_env (endpoint_of (character_path (wow demo_env))) (accessToken warm_world))
        (now warm_world) = (Resolves ?rc, 50)"
    by (simp_all add: doc_net_def)
  have o: "ok ?r" "json ?r = Doc one_player"
    and oo: "ok ?ro" "json ?ro = Doc three_games"
    and orr: "ok ?rr" "json ?rr = Doc two_recent"
    and oc: "ok ?rc" "json ?rc = Doc empty_profile"
    by (simp_all add: ok_def)
  have f: "opt_chain (opt_chain (pl_response one_player) pr_players) first_elem = Val ?p"
    by (simp add: one_player_def opt_chain_def first_elem_def)
  have warm: "cached_token_valid warm_world"
    by (simp add: cached_token_valid_def warm_world_def truthy_str_def)
  have dn: "wow_characterName (wow demo_env) = Some ''Arthas''"
    by (simp add: demo_env_def)
  have sp1: "fst (fetchPlayerSummary steam_cfg (doc_net one_player) warm_world) =
      Inr (normalize_player ?p)"
    using fetchPlayerSummary_live[where net = "doc_net one_player", OF steam_cfg_valid q' o f]
    by simp
  obtain l where sp2: "fst (fetchSteamLevel steam_cfg no_net warm_world) = Inr l"
    using fetchSteamLevel_returns by blast
  obtain og where sp3: "fst (fetchOwnedGames steam_cfg (doc_net three_games) warm_world) = Inr og"
    using fetchOwnedGames_live[where net = "doc_net three_games", OF steam_cfg_valid qo oo]
    by blast
  obtain rg where sp4: "fst (fetchRecentGames steam_cfg (doc_net two_recent) 10 warm_world) = Inr rg"
    using fetchRecentGames_live[where net = "doc_net two_recent", OF steam_cfg_valid qr orr]
    by blast
  have SX: "?SX = (Inr (projr (fst ?SX)), snd ?SX)"
    by (rule returned, rule fetchAllSteamData_returns[OF sp1 sp2 sp3 sp4])
  have WX: "?WX = (Inr (projr (fst ?WX)), snd ?WX)"
    by (rule returned, rule fetchAllWoWData_returns[OF dn])
  note unset = bundle_members_set[where env = unset_env and tnet = token_ok_net and cnet = no_net
      and mnet = no_net and rdnet = no_net and w = cold_world and b = ?b and ww = cold_world
      and sc = steam_unset and pnet = no_net and lnet = no_net and onet = no_net and rnet = no_net
      and sb = ?sb and ws = cold_world and pc = poe_cfg and pcnet = no_net and plnet = no_net
      and panet = no_net and pb = "projr (fst ?X)" and wp = "snd ?X" and n = "''Arthas''"
      and r = ?r and el = 50 and d = one_player and p = ?p and ro = ?ro and elo = 50
      and od = three_games and g = ?g and rr = ?rr and elr = 50 and rd = two_recent
      and rc = ?rc and elc = 50 and cd = empty_profile]
  note live = bundle_members_set[where env = unset_env and tnet = token_ok_net and cnet = no_net
      and mnet = no_net and rdnet = no_net and w = cold_world and b = ?b and ww = cold_world
      and sc = steam_cfg and pnet = "doc_net one_player" and lnet = no_net and onet = no_net
      and rnet = no_net and sb = ?sb and ws = cold_world and pc = poe_cfg and pcnet = no_net
      and plnet = no_net and panet = no_net and pb = "projr (fst ?X)" and wp = "snd ?X"
      and n = "''Arthas''" and r = ?r and el = 50 and d = one_player and p = ?p and ro = ?ro
      and elo = 50 and od = three_games and g = ?g and rr = ?rr and elr = 50 and rd = two_recent
      and rc = ?rc and elc = 50 and cd = empty_profile]
  note full = bundle_members_set[where env = demo_env and tnet = token_ok_net
      and cnet = "doc_net empty_profile" and mnet = no_net and rdnet = no_net and w = warm_world
      and b = "projr (fst ?WX)" and ww = "snd ?WX" and sc = steam_cfg
      and pnet = "doc_net one_player" and lnet = no_net and onet = "doc_net three_games"
      and rnet = "doc_net two_recent" and sb = "projr (fst ?SX)" and ws = "snd ?SX"
      and pc = poe_cfg and pcnet = no_net and plnet = no_net and panet = no_net
      and pb = "projr (fst ?X)" and wp = "snd ?X" and n = "''Arthas''" and r = ?r and el = 50
      and d = one_player and p = ?p and ro = ?ro and elo = 50 and od = three_games and g = ?g
      and rr = ?rr and elr = 50 and rd = two_recent and rc = ?rc and elc = 50
      and cd = empty_profile]
  have w1: "wow_defaults_set ?b" using unset[THEN conjunct1] wX by blast
  have w2: "\<exists>b'. fetchAllWoWData unset_env token_ok_net no_net no_net no_net cold_world = (Inr b', cold_world) \<and>
      wow_complete b'"
    using unset[THEN conjunct2, THEN conjunct2, THEN conjunct2, THEN conjunct2, THEN conjunct1]
      cr cold(1) ch
    by blast
  have w3: "\<exists>sb'. fetchAllSteamData steam_unset no_net no_net no_net no_net cold_world = (Inr sb', cold_world) \<and>
      steam_complete sb'"
    using unset[THEN conjunct2, THEN conjunct2, THEN conjunct2, THEN conjunct1] steam_unset_invalid
    by blast
  then have w3': "steam_complete ?sb" using sX by auto
  have w4: "is_set (ap_name (p2_account (projr (fst ?X))))"
    using unset[THEN conjunct2, THEN conjunct2, THEN conjunct1] pX pc by blast
  have w5: "fst (fetchPlayerSummary steam_cfg (doc_net one_player) cold_world) = Inr (normalize_player ?p)"
    using live[THEN conjunct2, THEN conjunct2, THEN conjunct2, THEN conjunct2, THEN conjunct2,
        THEN conjunct1]
      steam_cfg_valid q o f
    by blast
  have w6: "ps_personaName (sd_profile (projr (fst ?SX))) = sp_personaname ?p \<and>
      ps_realName (sd_profile (projr (fst ?SX))) = sp_realname ?p"
    using full[THEN conjunct2, THEN conjunct2, THEN conjunct2, THEN conjunct2, THEN conjunct2,
        THEN conjunct1]
      steam_cfg_valid q' o f SX
    by blast
  have w7: "steam_defaults_set (projr (fst ?SX))"
    using full[THEN conjunct2, THEN conjunct1] SX by blast
  have w8: "mset (ogs_games (sd_ownedGames (projr (fst ?SX)))) =
      mset (map normalize_owned (or_empty (opt_chain (ow_response three_games) ow_games)))"
    using full[THEN conjunct2, THEN conjunct2, THEN conjunct2, THEN conjunct2, THEN conjunct2,
        THEN conjunct2, THEN conjunct1]
      steam_cfg_valid SX qo oo
    by blast
  have w9: "og_lastPlayed (normalize_owned ?g) = sg_rtime_last_played ?g"
    using full[THEN conjunct2, THEN conjunct2, THEN conjunct2, THEN conjunct2, THEN conjunct2,
        THEN conjunct2, THEN conjunct2, THEN conjunct1]
    by blast
  have w10: "rgs_games (sd_recentGames (projr (fst ?SX))) =
      map normalize_recent (or_empty (opt_chain (rc_response two_recent) rc_games))"
    using full[THEN conjunct2, THEN conjunct2, THEN conjunct2, THEN conjunct2, THEN conjunct2,
        THEN conjunct2, THEN conjunct2, THEN conjunct2, THEN conjunct1]
      steam_cfg_valid SX qr orr
    by blast
  have w11: "rg_playtime2WeeksMinutes (normalize_recent ?g) = sg_playtime_2weeks ?g"
    using full[THEN conjunct2, THEN conjunct2, THEN conjunct2, THEN conjunct2, THEN conjunct2,
        THEN conjunct2, THEN conjunct2, THEN conjunct2, THEN conjunct2, THEN conjunct1]
    by blast
  have w12: "wow_defaults_set (projr (fst ?WX))"
    using full[THEN conjunct1] WX by blast
  have w13: "cp_name (wd_profile (projr (fst ?WX))) = pd_name empty_profile \<and>
      cp_lastLogin (wd_profile (projr (fst ?WX))) = pd_last_login_timestamp empty_profile"
    using full[THEN conjunct2, THEN conjunct2, THEN conjunct2, THEN conjunct2, THEN conjunct2,
        THEN conjunct2, THEN conjunct2, THEN conjunct2, THEN conjunct2, THEN conjunct2,
        THEN conjunct1]
      WX warm qc oc
    by blast
  have w14: "wow_characterName (wow demo_env) \<noteq> None"
    using full[THEN conjunct2, THEN conjunct2, THEN conjunct2, THEN conjunct2, THEN conjunct2,
        THEN conjunct2, THEN conjunct2, THEN conjunct2, THEN conjunct2, THEN conjunct2,
        THEN conjunct2]
      WX
    by blast
  have e6: "ps_personaName (sd_profile (projr (fst ?SX))) = Val ''Me''"
    "ps_realName (sd_profile (projr (fst ?SX))) = Undefined"
    using w6 by simp_all
  have e8: "mset (ogs_games (sd_ownedGames (projr (fst ?SX)))) =
      mset (map normalize_owned [game_of 10 ''A'' 100, game_of 20 ''B'' 500, game_of 30 ''C'' 300])"
    using w8 by (simp add: three_games_def opt_chain_def or_empty_def)
  have e9: "og_lastPlayed (normalize_owned ?g) = Undefined"
    using w9 by (simp add: game_of_def)
  have e10: "rgs_games (sd_recentGames (projr (fst ?SX))) =
      map normalize_recent [game_of 10 ''A'' 100, game_of 30 ''C'' 500]"
    using w10 by (simp add: two_recent_def opt_chain_def or_empty_def)
  have e11: "rg_playtime2WeeksMinutes (normalize_recent ?g) = Undefined"
    using w11 by (simp add: game_of_def)
  have e13: "cp_name (wd_profile (projr (fst ?WX))) = Undefined"
    "cp_lastLogin (wd_profile (projr (fst ?WX))) = Undefined"
    using w13 by (simp_all add: empty_profile_def)
  from w1 w2 w3' w4 w5 e6 w7 e8 e9 e10 e11 w12 e13 w14 show ?thesis
    by - ((rule conjI, assumption)+, assumption)
qed

section \<open>Walking the pages\<close>






















end
